theory Spec2Isabelle
  imports Complex_Main "HOL-Library.Sublist" "HOL-Library.AList" "HOL-Library.Product_Lexorder"
begin

section \<open>Python strings\<close>

text \<open>
  Ingredient names, catalog descriptions and dictionary keys are Python \<open>str\<close> values.
  They are modelled as \<open>string\<close> (lists of 8-bit characters) and the \<open>str\<close> methods the
  code calls are written out for the ASCII range: \<open>lower\<close> changes \<open>A\<close>..\<open>Z\<close> only and the
  white space of \<open>strip\<close> and \<open>split\<close> is the ASCII white space of Python
  (code points 9 to 13 and 28 to 32).
\<close>

definition isupper :: "char \<Rightarrow> bool" where
  "isupper c = (65 \<le> (of_char c :: nat) \<and> (of_char c :: nat) \<le> 90)"

definition lower_char :: "char \<Rightarrow> char" where
  "lower_char c = (if isupper c
     then Char (digit0 c) (digit1 c) (digit2 c) (digit3 c) (digit4 c) True (digit6 c) (digit7 c)
     else c)"

definition str_lower :: "string \<Rightarrow> string" where
  "str_lower s = map lower_char s"

definition isspace :: "char \<Rightarrow> bool" where
  "isspace c = ((9 \<le> (of_char c :: nat) \<and> (of_char c :: nat) \<le> 13)
              \<or> (28 \<le> (of_char c :: nat) \<and> (of_char c :: nat) \<le> 32))"

definition str_strip :: "string \<Rightarrow> string" where
  "str_strip s = rev (dropWhile isspace (rev (dropWhile isspace s)))"

text \<open>\<open>s.replace(a, b)\<close> for one-character \<open>a\<close> and \<open>b\<close>.\<close>

definition str_replace :: "char \<Rightarrow> char \<Rightarrow> string \<Rightarrow> string" where
  "str_replace a b s = map (\<lambda>c. if c = a then b else c) s"

text \<open>\<open>s.endswith(c)\<close> for a one-character suffix.\<close>

definition endswith_char :: "string \<Rightarrow> char \<Rightarrow> bool" where
  "endswith_char s c = (s \<noteq> [] \<and> last s = c)"

text \<open>\<open>s.split()\<close>: the maximal runs of characters that are not white space.\<close>

fun split_acc :: "string \<Rightarrow> string \<Rightarrow> string list" where
  "split_acc cur [] = (if cur = [] then [] else [rev cur])"
| "split_acc cur (c # cs) =
     (if isspace c
      then (if cur = [] then split_acc [] cs else rev cur # split_acc [] cs)
      else split_acc (c # cur) cs)"

definition str_split :: "string \<Rightarrow> string list" where
  "str_split s = split_acc [] s"

section \<open>Curated mapping store (tools/mapping\_tool.py)\<close>

text \<open>
  The curated mappings are a Python \<open>dict\<close> from keys to entries, loaded from a JSON
  file: a partial map. \<open>k in mappings\<close> is \<open>has_key\<close>.
\<close>

record mapping_entry =
  m_fdc_id :: "int option"
  m_description :: string
  m_data_type :: string
  m_verified :: bool
  m_notes :: string

definition has_key :: "('k \<rightharpoonup> 'v) \<Rightarrow> 'k \<Rightarrow> bool" where
  "has_key m k = (m k \<noteq> None)"

text \<open>The four separator variations of \<open>_fuzzy_match\<close>, in the order of the source list.\<close>

definition variations :: "string \<Rightarrow> string list" where
  "variations ingredient_lower =
     [ str_replace (CHR '' '') (CHR ''_'') ingredient_lower,
       str_replace (CHR ''_'') (CHR '' '') ingredient_lower,
       str_replace (CHR ''-'') (CHR '' '') ingredient_lower,
       str_replace (CHR '' '') (CHR ''-'') ingredient_lower ]"

text \<open>
  \<open>_fuzzy_match\<close>: the exact key; then, for a name ending in \<open>s\<close>, the name without its
  last character, and for any other name the name with \<open>s\<close> and then with \<open>es\<close> appended;
  then the first variation that is a key; else \<open>None\<close>.
\<close>

definition fuzzy_match :: "string \<Rightarrow> (string \<rightharpoonup> 'v) \<Rightarrow> string option" where
  "fuzzy_match ingredient mappings =
     (let ingredient_lower = str_strip (str_lower ingredient) in
      if has_key mappings ingredient_lower then Some ingredient_lower
      else if endswith_char ingredient_lower (CHR ''s'')
              \<and> has_key mappings (butlast ingredient_lower)
        then Some (butlast ingredient_lower)
      else if \<not> endswith_char ingredient_lower (CHR ''s'')
              \<and> has_key mappings (ingredient_lower @ ''s'')
        then Some (ingredient_lower @ ''s'')
      else if \<not> endswith_char ingredient_lower (CHR ''s'')
              \<and> has_key mappings (ingredient_lower @ ''es'')
        then Some (ingredient_lower @ ''es'')
      else find (has_key mappings) (variations ingredient_lower))"

text \<open>
  \<open>search_mappings\<close>: \<open>if matched_key:\<close> is Python truthiness, so the empty key counts
  as no match; otherwise the entry stored under the matched key is returned.
\<close>

definition search_mappings :: "string \<Rightarrow> (string \<rightharpoonup> 'v) \<Rightarrow> 'v option" where
  "search_mappings ingredient mappings =
     (case fuzzy_match ingredient mappings of
        None \<Rightarrow> None
      | Some matched_key \<Rightarrow> (if matched_key \<noteq> [] then mappings matched_key else None))"

text \<open>
  The matching policy in the words of the specification, as the ordered list of keys that
  are tried: the lowercased and trimmed name, its plural adjustments, its separator
  variations. The code has the \<open>s\<close> and \<open>es\<close> adjustments only.
\<close>

definition match_candidates :: "string \<Rightarrow> string list" where
  "match_candidates ingredient_lower =
     [ingredient_lower]
     @ (if endswith_char ingredient_lower (CHR ''s'')
        then [butlast ingredient_lower]
        else [ingredient_lower @ ''s'', ingredient_lower @ ''es''])
     @ variations ingredient_lower"

text \<open>The \<open>ies\<close> plural of a name ending in \<open>y\<close>.\<close>

definition ies_plural :: "string \<Rightarrow> string" where
  "ies_plural w = butlast w @ ''ies''"

definition berries_entry :: mapping_entry where
  "berries_entry = \<lparr> m_fdc_id = Some 171711, m_description = ''Blueberries, raw'',
     m_data_type = ''SR Legacy'', m_verified = True, m_notes = [] \<rparr>"

text \<open>The store whose only key is \<open>berries\<close>.\<close>

definition berries_store :: "string \<rightharpoonup> mapping_entry" where
  "berries_store = [''berries'' \<mapsto> berries_entry]"

section \<open>Relevance scorer (tools/scoring\_tool.py)\<close>

text \<open>
  A search row of the catalog: the keys of the JSON object that the code reads. \<open>fdcId\<close>
  is \<open>None\<close> when the key is absent; \<open>description\<close> and \<open>dataType\<close> are the empty
  string when absent (the default of \<open>get\<close>); \<open>foodCategory\<close> is an object with a
  description, a string, or anything else; \<open>search_tier\<close> is the tag \<open>_search_tier\<close> that
  the multi-tier search adds.
\<close>

datatype food_category = CategoryDict string | CategoryStr string | CategoryOther

record food =
  fdcId :: "int option"
  description :: string
  dataType :: string
  foodCategory :: food_category
  search_tier :: "nat option"

text \<open>
  \<open>_score_relevance_advanced\<close> starts from 1000.0 and adds or subtracts whole numbers
  only, so the float it returns is an integer, modelled as \<open>int\<close>. Each block of the
  function is one definition giving the amount the block adds to \<open>score\<close>; the function
  is their sum in the order of the source.
\<close>

text \<open>Lines 151-168: exact match, starts with the query; starts with the last query
  word, full query contained; query contained.\<close>

definition main_ingredient :: "string \<Rightarrow> string" where
  "main_ingredient query_lower =
     (let query_word_list = str_split query_lower
      in if query_word_list \<noteq> [] then last query_word_list else [])"

definition lexical_bonus :: "string \<Rightarrow> string \<Rightarrow> int" where
  "lexical_bonus descr query_lower =
     (if descr = query_lower then 500
      else if prefix query_lower descr then 300
      else 0)
     + (if main_ingredient query_lower \<noteq> [] \<and> prefix (main_ingredient query_lower) descr
        then 250 + (if sublist query_lower descr then 100 else 0)
        else if sublist query_lower descr then 200
        else 0)"

text \<open>Lines 170-179: word-level matching on the sets of words.\<close>

definition word_bonus :: "string \<Rightarrow> string \<Rightarrow> int" where
  "word_bonus descr query_lower =
     (let query_words = set (str_split query_lower);
          desc_words = set (str_split (str_replace (CHR '','') (CHR '' '') descr));
          matching_words = query_words \<inter> desc_words
      in if matching_words \<noteq> {}
         then (if matching_words = query_words then 150
               else int (card matching_words) * 30)
         else 0)"

definition compound_indicators :: "string list" where
  "compound_indicators = [''cheese'', ''crackers'', ''bread'', ''cookies'', ''cake'',
     ''soup'', ''sauce'', ''dressing'', ''cereal'', ''bar'', ''drink'',
     ''juice'', ''spread'', ''butter'', ''yogurt'']"

definition processed_forms :: "string list" where
  "processed_forms = [''dry'', ''powdered'', ''powder'', ''dehydrated'', ''canned'', ''frozen'',
     ''concentrated'', ''evaporated'', ''condensed'']"

text \<open>Lines 181-215: penalties for compound and processed foods when the query has at
  most two distinct words.\<close>

definition compound_penalty :: "string \<Rightarrow> string \<Rightarrow> int" where
  "compound_penalty descr query_lower =
     (let query_word_count = card (set (str_split query_lower));
          desc_words_list = str_split (str_replace (CHR '','') (CHR '' '') descr);
          desc_word_count = length desc_words_list;
          first_word = (if desc_words_list \<noteq> [] then hd desc_words_list else [])
      in if query_word_count \<le> 2
         then (if first_word \<in> set compound_indicators then 800
               else if list_ex (\<lambda>indicator. sublist indicator descr) compound_indicators then 500
               else 0)
            + (if \<not> list_ex (\<lambda>form. sublist form query_lower) processed_forms
                  \<and> list_ex (\<lambda>form. sublist form descr) processed_forms
               then 300 else 0)
            + (if desc_word_count > query_word_count + 1 then 150 else 0)
         else 0)"

text \<open>Lines 217-227: data type priority.\<close>

definition data_type_bias :: "string \<Rightarrow> int" where
  "data_type_bias dt =
     (if dt = ''Foundation'' then 100
      else if dt = ''SR Legacy'' then 50
      else if dt = ''Survey (FNDDS)'' then 25
      else if dt = ''Branded'' then - 50
      else 0)"

text \<open>Lines 229-241: food category relevance.\<close>

definition category_text :: "food_category \<Rightarrow> string" where
  "category_text c =
     (case c of CategoryDict d \<Rightarrow> str_lower d | CategoryStr s \<Rightarrow> str_lower s
      | CategoryOther \<Rightarrow> [])"

definition category_bias :: "food_category \<Rightarrow> string \<Rightarrow> int" where
  "category_bias c query_lower =
     (if sublist ''milk'' query_lower \<and> sublist ''dairy'' (category_text c) then 50 else 0)
     + (if sublist ''fruit'' query_lower \<and> sublist ''fruit'' (category_text c) then 50 else 0)"

definition score_relevance_advanced :: "food \<Rightarrow> string \<Rightarrow> nat \<Rightarrow> int" where
  "score_relevance_advanced fd query position =
     (let descr = str_lower (description fd);
          query_lower = str_lower query
      in 1000
         - int position * 10
         + lexical_bonus descr query_lower
         + word_bonus descr query_lower
         - compound_penalty descr query_lower
         + data_type_bias (dataType fd)
         + category_bias (foodCategory fd) query_lower)"

text \<open>Two catalog rows used as concrete inputs.\<close>

definition milk_row :: food where
  "milk_row = \<lparr> fdcId = Some 746782, description = ''Milk'', dataType = ''Other'',
     foodCategory = CategoryOther, search_tier = None \<rparr>"

definition whole_milk_row :: food where
  "whole_milk_row = \<lparr> fdcId = Some 746782, description = ''Whole milk'', dataType = ''Other'',
     foodCategory = CategoryOther, search_tier = None \<rparr>"

text \<open>The test of the second chain: the description starts with the non-empty last
  word of the query.\<close>

definition starts_with_head :: "string \<Rightarrow> string \<Rightarrow> bool" where
  "starts_with_head descr query_lower =
     (main_ingredient query_lower \<noteq> [] \<and> prefix (main_ingredient query_lower) descr)"

section \<open>Comprehensive 4-tier search (tools/usda\_api\_tool.py)\<close>

text \<open>
  \<open>client.search_food\<close> reaches the catalog over the network. It is a parameter of the
  model: a function of the query, the page size, the data type filter and the state of the
  outside world, returning the rows of the response and the next state of the world.
\<close>

type_synonym 'w search_food = "string \<Rightarrow> nat \<Rightarrow> string option \<Rightarrow> 'w \<Rightarrow> food list \<times> 'w"












section \<open>Catalog client (tools/usda\_api\_tool.py, class USDAApiClient)\<close>

text \<open>
  One pass through the \<open>try\<close> body (\<open>session.get\<close>, \<open>raise_for_status\<close>,
  \<open>response.json()\<close>) either yields the decoded payload or raises. The exceptions are
  the two classes the handlers name, \<open>requests.exceptions.Timeout\<close> and
  \<open>requests.exceptions.RequestException\<close> (the transport exceptions), and any other
  exception, which no handler catches.
\<close>

datatype exn = Timeout | RequestException | OtherException

datatype 'a outcome = Response 'a | Raise exn

record client =
  rate_limit_delay :: rat
  max_retries :: nat
  timeout :: nat

text \<open>The values set by \<open>__init__\<close>.\<close>

definition default_client :: client where
  "default_client = \<lparr> rate_limit_delay = 1 / 2, max_retries = 3, timeout = 45 \<rparr>"

text \<open>
  The state a request runs in: the outside world, the durations passed to
  \<open>time.sleep\<close> so far (in seconds, in order) and the number of \<open>session.get\<close> calls.
\<close>

record 'w net =
  world :: 'w
  slept :: "rat list"
  requests :: nat

definition sleep :: "rat \<Rightarrow> 'w net \<Rightarrow> 'w net" where
  "sleep d s = s\<lparr>slept := slept s @ [d]\<rparr>"

text \<open>The \<open>finally\<close> clause: on the last attempt, sleep for the rate limit delay.\<close>

definition finally_clause :: "client \<Rightarrow> nat \<Rightarrow> 'w net \<Rightarrow> 'w net" where
  "finally_clause c attempt s =
     (if attempt = max_retries c - 1 then sleep (rate_limit_delay c) s else s)"

text \<open>
  The loop \<open>for attempt in range(self.max_retries)\<close> of both operations, over the list
  of the attempt numbers still to run. The result is \<open>Inl\<close> for an exception that leaves
  the function, \<open>Inr (Some payload)\<close> for a \<open>return\<close> from the \<open>try\<close> body, and
  \<open>Inr None\<close> for the \<open>return\<close> of a handler on the last attempt or the one after the
  loop.
\<close>

fun retry_loop ::
    "client \<Rightarrow> ('w \<Rightarrow> 'a outcome \<times> 'w) \<Rightarrow> nat list \<Rightarrow> 'w net \<Rightarrow> (exn + 'a option) \<times> 'w net" where
  "retry_loop c http [] s = (Inr None, s)"
| "retry_loop c http (attempt # rest) s =
     (let (r, w') = http (world s);
          s1 = s\<lparr>world := w', requests := requests s + 1\<rparr>
      in case r of
           Response payload \<Rightarrow> (Inr (Some payload), finally_clause c attempt s1)
         | Raise OtherException \<Rightarrow> (Inl OtherException, finally_clause c attempt s1)
         | Raise _ \<Rightarrow>
             (if attempt < max_retries c - 1
              then retry_loop c http rest (finally_clause c attempt (sleep ((2 ^ attempt) * 2) s1))
              else (Inr None, finally_clause c attempt s1)))"

text \<open>The request parameters of \<open>search_food\<close>.\<close>

record search_request =
  sr_query :: string
  sr_pageSize :: nat
  sr_dataType :: string

definition search_params :: "string \<Rightarrow> nat \<Rightarrow> string option \<Rightarrow> search_request" where
  "search_params query page_size data_type_filter =
     \<lparr> sr_query = query, sr_pageSize = min page_size 200,
       sr_dataType = (case data_type_filter of
                        None \<Rightarrow> ''Foundation,SR Legacy''
                      | Some f \<Rightarrow> (if f \<noteq> [] then f else ''Foundation,SR Legacy'')) \<rparr>"

text \<open>
  \<open>search_food\<close>: the payload of a search is the value of its key \<open>foods\<close>, if it has
  one; \<open>data.get("foods", [])\<close> is the empty list otherwise.
\<close>

definition search_food ::
    "client \<Rightarrow> (search_request \<Rightarrow> 'w \<Rightarrow> food list option outcome \<times> 'w)
       \<Rightarrow> string \<Rightarrow> nat \<Rightarrow> string option \<Rightarrow> 'w net \<Rightarrow> (exn + food list) \<times> 'w net" where
  "search_food c http query page_size data_type_filter s =
     (case retry_loop c (http (search_params query page_size data_type_filter))
             [0 ..< max_retries c] s of
        (Inl e, s') \<Rightarrow> (Inl e, s')
      | (Inr None, s') \<Rightarrow> (Inr [], s')
      | (Inr (Some None), s') \<Rightarrow> (Inr [], s')
      | (Inr (Some (Some foods)), s') \<Rightarrow> (Inr foods, s'))"

text \<open>\<open>get_food_details\<close>: the decoded detail record, or \<open>None\<close>.\<close>

definition get_food_details ::
    "client \<Rightarrow> (int \<Rightarrow> 'w \<Rightarrow> 'd outcome \<times> 'w) \<Rightarrow> int \<Rightarrow> 'w net \<Rightarrow> (exn + 'd option) \<times> 'w net" where
  "get_food_details c http fdc_id s =
     retry_loop c (http fdc_id) [0 ..< max_retries c] s"

text \<open>A transport exception is one of the two classes of \<open>requests\<close>.\<close>

definition transport_failure :: "'a outcome \<Rightarrow> bool" where
  "transport_failure r = (r = Raise Timeout \<or> r = Raise RequestException)"

text \<open>Concrete transports: one that always times out and one that answers the third
  request; the world counts the requests it has seen.\<close>

definition always_timeout :: "'r \<Rightarrow> nat \<Rightarrow> 'a outcome \<times> nat" where
  "always_timeout req n = (Raise Timeout, Suc n)"

definition third_time_lucky :: "'r \<Rightarrow> nat \<Rightarrow> nat outcome \<times> nat" where
  "third_time_lucky req n = (if n < 2 then Raise RequestException else Response n, Suc n)"

definition net0 :: "nat net" where
  "net0 = \<lparr> world = 0, slept = [], requests = 0 \<rparr>"

section \<open>Nutrient normalizer (utils/nutrient\_mapper.py, tools/nutrition\_extractor\_tool.py)\<close>

text \<open>
  A nutrient value is the dictionary \<open>{"amount": ..., "unit": ...}\<close>. Amounts are JSON
  numbers; they are modelled as real numbers. The normalizer only moves them around,
  the gate divides one of them (see \<open>extract_basic_nutrients\<close>).
\<close>

record nutrient_value =
  nv_amount :: real
  nv_unit :: string

text \<open>
  Python dictionaries whose order matters are association lists with distinct keys in
  insertion order; \<open>d[k] = v\<close> is \<open>AList.update k v d\<close>, which replaces the value of a
  key that is present in place and appends a new key at the end.
\<close>

type_synonym raw_nutrients = "(string \<times> nutrient_value) list"
type_synonym standardized = "(string \<times> nutrient_value option) list"

text \<open>\<open>USDA_NUTRIENT_MAPPINGS\<close>, in the order of the source.\<close>

definition USDA_NUTRIENT_MAPPINGS :: "(string \<times> string) list" where
  "USDA_NUTRIENT_MAPPINGS =
     [
       (''Energy'', ''nutrient-calories-energy''),
       (''Energy (Atwater General Factors)'', ''nutrient-calories-energy''),
       (''Energy (Atwater Specific Factors)'', ''nutrient-calories-energy''),
       (''Protein'', ''nutrient-protein''),
       (''Total lipid (fat)'', ''nutrient-total-fat''),
       (''Carbohydrate, by difference'', ''nutrient-total-carbohydrates''),
       (''Fiber, total dietary'', ''nutrient-dietary-fiber''),
       (''Sugars, total including NLEA'', ''nutrient-total-sugars''),
       (''Sugars, added'', ''nutrient-total-sugars''),
       (''Water'', ''nutrient-water''),
       (''Fatty acids, total saturated'', ''nutrient-saturated-fat''),
       (''Fatty acids, total trans'', ''nutrient-trans-fat''),
       (''Fatty acids, total monounsaturated'', ''nutrient-monounsaturated-fat''),
       (''Fatty acids, total polyunsaturated'', ''nutrient-polyunsaturated-fat''),
       (''Cholesterol'', ''nutrient-cholesterol''),
       (''Alcohol, ethyl'', ''nutrient-alcohol''),
       (''Caffeine'', ''nutrient-caffeine''),
       (''Theobromine'', ''nutrient-theobromine''),
       (''Ash'', ''nutrient-ash''),
       (''Vitamin A, RAE'', ''nutrient-vitamin-a-rae''),
       (''Retinol'', ''nutrient-retinol''),
       (''Vitamin D (D2 + D3)'', ''nutrient-vitamin-d''),
       (''Vitamin E (alpha-tocopherol)'', ''nutrient-vitamin-e-alpha-tocopherol''),
       (''Vitamin K (phylloquinone)'', ''nutrient-vitamin-k-phylloquinone''),
       (''Thiamin'', ''nutrient-thiamin-b1''),
       (''Riboflavin'', ''nutrient-riboflavin-b2''),
       (''Niacin'', ''nutrient-niacin-b3''),
       (''Pantothenic acid'', ''nutrient-vitamin-b5-pantothenic-acid''),
       (''Vitamin B-6'', ''nutrient-vitamin-b6''),
       (''Folate, total'', ''nutrient-folate-folic-acid''),
       (''Folic acid'', ''nutrient-folate-folic-acid''),
       (''Vitamin B-12'', ''nutrient-vitamin-b12''),
       (''Choline, total'', ''nutrient-choline''),
       (''Vitamin C, total ascorbic acid'', ''nutrient-vitamin-c-ascorbic-acid''),
       (''Calcium, Ca'', ''nutrient-calcium''),
       (''Magnesium, Mg'', ''nutrient-magnesium''),
       (''Phosphorus, P'', ''nutrient-phosphorus''),
       (''Potassium, K'', ''nutrient-potassium''),
       (''Sodium, Na'', ''nutrient-sodium''),
       (''Iron, Fe'', ''nutrient-iron''),
       (''Zinc, Zn'', ''nutrient-zinc''),
       (''Copper, Cu'', ''nutrient-copper''),
       (''Selenium, Se'', ''nutrient-selenium''),
       (''Manganese, Mn'', ''nutrient-manganese''),
       (''Fluoride, F'', ''nutrient-fluoride''),
       (''Beta-carotene'', ''nutrient-beta-carotene''),
       (''Alpha-carotene'', ''nutrient-alpha-carotene''),
       (''Cryptoxanthin, beta'', ''nutrient-cryptoxanthin''),
       (''Lycopene'', ''nutrient-lycopene''),
       (''Lutein + zeaxanthin'', ''nutrient-lutein-zeaxanthin''),
       (''4:0'', ''nutrient-sfa-4-0-butyric''),
       (''6:0'', ''nutrient-sfa-6-0-caproic''),
       (''8:0'', ''nutrient-sfa-8-0-caprylic''),
       (''10:0'', ''nutrient-sfa-10-0-capric''),
       (''12:0'', ''nutrient-sfa-12-0-lauric''),
       (''14:0'', ''nutrient-sfa-14-0-myristic''),
       (''16:0'', ''nutrient-sfa-16-0-palmitic''),
       (''18:0'', ''nutrient-sfa-18-0-stearic''),
       (''16:1'', ''nutrient-mufa-16-1-palmitoleic''),
       (''18:1'', ''nutrient-mufa-18-1-oleic''),
       (''20:1'', ''nutrient-mufa-20-1''),
       (''22:1'', ''nutrient-mufa-22-1''),
       (''18:2 n-6 c,c'', ''nutrient-pufa-18-2-linoleic''),
       (''18:3 n-3 c,c,c (ALA)'', ''nutrient-pufa-18-3-alpha-linolenic''),
       (''18:4'', ''nutrient-pufa-18-4''),
       (''20:4 n-6'', ''nutrient-pufa-20-4-arachidonic''),
       (''20:5 n-3 (EPA)'', ''nutrient-pufa-20-5-epa''),
       (''22:5 n-3 (DPA)'', ''nutrient-pufa-22-5-dpa''),
       (''22:6 n-3 (DHA)'', ''nutrient-pufa-22-6-dha''),
       (''Tryptophan'', ''nutrient-tryptophan''),
       (''Threonine'', ''nutrient-threonine''),
       (''Isoleucine'', ''nutrient-isoleucine''),
       (''Leucine'', ''nutrient-leucine''),
       (''Lysine'', ''nutrient-lysine''),
       (''Methionine'', ''nutrient-methionine''),
       (''Phenylalanine'', ''nutrient-phenylalanine''),
       (''Valine'', ''nutrient-valine''),
       (''Arginine'', ''nutrient-arginine''),
       (''Histidine'', ''nutrient-histidine''),
       (''Cystine'', ''nutrient-cystine''),
       (''Tyrosine'', ''nutrient-tyrosine''),
       (''Alanine'', ''nutrient-alanine''),
       (''Aspartic acid'', ''nutrient-aspartic-acid''),
       (''Glutamic acid'', ''nutrient-glutamic-acid''),
       (''Glycine'', ''nutrient-glycine''),
       (''Proline'', ''nutrient-proline''),
       (''Serine'', ''nutrient-serine'')
     ]"

text \<open>
  \<open>map_usda_nutrient_to_standard\<close>: the direct lookup, the first entry of the table
  equal up to case, then the substring fallbacks in the order of the source.
\<close>

definition map_usda_nutrient_to_standard :: "string \<Rightarrow> string option" where
  "map_usda_nutrient_to_standard usda_nutrient_name =
     (case map_of USDA_NUTRIENT_MAPPINGS usda_nutrient_name of
        Some nutrient_id \<Rightarrow> Some nutrient_id
      | None \<Rightarrow>
         (let usda_lower = str_lower usda_nutrient_name in
          case find (\<lambda>(usda_name, nutrient_id). str_lower usda_name = usda_lower)
                 USDA_NUTRIENT_MAPPINGS of
            Some (usda_name, nutrient_id) \<Rightarrow> Some nutrient_id
          | None \<Rightarrow>
             (if sublist ''energy'' usda_lower \<or> sublist ''calorie'' usda_lower
                then Some ''nutrient-calories-energy''
              else if sublist ''protein'' usda_lower then Some ''nutrient-protein''
              else if sublist ''fat'' usda_lower \<and> sublist ''total'' usda_lower
                then Some ''nutrient-total-fat''
              else if sublist ''carbohydrate'' usda_lower
                then Some ''nutrient-total-carbohydrates''
              else if sublist ''fiber'' usda_lower \<or> sublist ''fibre'' usda_lower
                then Some ''nutrient-dietary-fiber''
              else if sublist ''sugar'' usda_lower then Some ''nutrient-total-sugars''
              else if sublist ''sodium'' usda_lower then Some ''nutrient-sodium''
              else if sublist ''calcium'' usda_lower then Some ''nutrient-calcium''
              else if sublist ''iron'' usda_lower then Some ''nutrient-iron''
              else if sublist ''vitamin c'' usda_lower \<or> sublist ''ascorbic'' usda_lower
                then Some ''nutrient-vitamin-c-ascorbic-acid''
              else None)))"

text \<open>
  \<open>extract_all_nutrients\<close>. The definitions table (a CSV file that is not part of the
  sources) enters through \<open>all_nutrient_ids\<close>, the list that \<open>get_all_nutrient_ids\<close>
  returns. The result starts with every identifier at \<open>None\<close>; then, in the order of
  the raw dictionary, each raw nutrient whose name maps to an identifier of the result
  overwrites that slot with its own value.
\<close>

definition init_result :: "string list \<Rightarrow> standardized" where
  "init_result all_nutrient_ids = foldl (\<lambda>d nutrient_id. AList.update nutrient_id None d) [] all_nutrient_ids"

definition assign_nutrient :: "standardized \<Rightarrow> string \<times> nutrient_value \<Rightarrow> standardized" where
  "assign_nutrient result item =
     (case map_usda_nutrient_to_standard (fst item) of
        None \<Rightarrow> result
      | Some nutrient_id \<Rightarrow>
          (if nutrient_id \<noteq> [] \<and> nutrient_id \<in> fst ` set result
           then AList.update nutrient_id (Some (snd item)) result
           else result))"

definition extract_all_nutrients :: "raw_nutrients \<Rightarrow> string list \<Rightarrow> standardized" where
  "extract_all_nutrients usda_nutrients all_nutrient_ids =
     foldl assign_nutrient (init_result all_nutrient_ids) usda_nutrients"

text \<open>
  A member of \<open>foodNutrients\<close>: the nested object \<open>nutrient\<close> (\<open>None\<close> when absent or
  empty, which is falsy) with its \<open>name\<close> and \<open>unitName\<close>, the same two keys at top
  level, and \<open>amount\<close>. Absent strings are empty, the default of \<open>get\<close>.
\<close>

record nutrient_info =
  ni_name :: string
  ni_unitName :: string

record food_nutrient =
  fn_nutrient :: "nutrient_info option"
  fn_name :: string
  fn_unitName :: string
  fn_amount :: "real option"

text \<open>The detail record of the catalog.\<close>

record food_data =
  fd_fdcId :: "int option"
  fd_description :: string
  fd_dataType :: string
  fd_brandOwner :: string
  foodNutrients :: "food_nutrient list"

text \<open>
  The body of the loop of \<open>extract_nutrition_data\<close> over \<open>food_nutrients\<close>.
  \<open>nutrient_info\<close> is the nested object if it is truthy and the member itself
  otherwise; the name and the unit are read from it, the amount from the member.
\<close>

definition read_name :: "food_nutrient \<Rightarrow> string" where
  "read_name nutrient =
     (case fn_nutrient nutrient of Some info \<Rightarrow> ni_name info | None \<Rightarrow> fn_name nutrient)"

definition read_unit :: "food_nutrient \<Rightarrow> string" where
  "read_unit nutrient =
     (case fn_nutrient nutrient of Some info \<Rightarrow> ni_unitName info | None \<Rightarrow> fn_unitName nutrient)"

definition nutrient_step :: "raw_nutrients \<Rightarrow> food_nutrient \<Rightarrow> raw_nutrients" where
  "nutrient_step nutrients nutrient =
     (case fn_amount nutrient of
        None \<Rightarrow> nutrients
      | Some amount \<Rightarrow>
          (if read_name nutrient \<noteq> []
           then AList.update (read_name nutrient)
                  \<lparr> nv_amount = amount, nv_unit = read_unit nutrient \<rparr> nutrients
           else nutrients))"

text \<open>
  The dictionary \<open>extract_nutrition_data\<close> returns. Its fixed strings (\<open>normalized_to\<close>,
  \<open>note\<close>) and \<open>common_nutrients\<close>, ten lookups in \<open>standardized_nutrients\<close> kept for
  older callers, are left out.
\<close>

record nutrition =
  n_fdc_id :: "int option"
  n_description :: string
  n_data_type :: string
  n_brand_owner :: string
  n_nutrients :: raw_nutrients
  n_standardized_nutrients :: standardized

definition extract_nutrition_data :: "string list \<Rightarrow> food_data \<Rightarrow> nutrition" where
  "extract_nutrition_data all_nutrient_ids fd =
     (let nutrients = foldl nutrient_step [] (foodNutrients fd)
      in \<lparr> n_fdc_id = fd_fdcId fd,
           n_description = fd_description fd,
           n_data_type = fd_dataType fd,
           n_brand_owner = fd_brandOwner fd,
           n_nutrients = nutrients,
           n_standardized_nutrients = extract_all_nutrients nutrients all_nutrient_ids \<rparr>)"

section \<open>Basic nutrient vector of the nutritional gate (tools/nutritional\_similarity\_tool.py)\<close>

text \<open>
  \<open>standardized.get(id)\<close> followed by the test \<open>data and data.get("amount")\<close>: the slot
  holds a value and its amount is not zero.
\<close>

definition truthy_slot :: "standardized \<Rightarrow> string \<Rightarrow> nutrient_value option" where
  "truthy_slot std nutrient_id =
     (case map_of std nutrient_id of
        Some (Some v) \<Rightarrow> (if nv_amount v \<noteq> 0 then Some v else None)
      | _ \<Rightarrow> None)"

definition basic_entry :: "standardized \<Rightarrow> string \<Rightarrow> string \<Rightarrow> (string \<times> real) list" where
  "basic_entry std nutrient_id key =
     (case truthy_slot std nutrient_id of
        Some v \<Rightarrow> [(key, nv_amount v)]
      | None \<Rightarrow> [])"

text \<open>Lines 48-57: the calories entry, divided by 4.184 when the unit contains \<open>kj\<close>.
  The division is that of the real numbers; the float the code computes is its rounding.\<close>

definition calories_entry :: "standardized \<Rightarrow> (string \<times> real) list" where
  "calories_entry std =
     (case truthy_slot std ''nutrient-calories-energy'' of
        Some cal_data \<Rightarrow>
          (if sublist ''kj'' (str_lower (nv_unit cal_data))
           then [(''calories'', nv_amount cal_data / (4184 / 1000))]
           else [(''calories'', nv_amount cal_data)])
      | None \<Rightarrow> [])"

text \<open>Lines 146-149: \<open>calories_from_fat\<close>, when \<open>total_fat_g\<close> is present and not zero.\<close>

definition calories_from_fat_entry :: "(string \<times> real) list \<Rightarrow> (string \<times> real) list" where
  "calories_from_fat_entry nutrients =
     (case map_of nutrients ''total_fat_g'' of
        Some fat \<Rightarrow> (if fat \<noteq> 0 then [(''calories_from_fat'', fat * 9)] else [])
      | None \<Rightarrow> [])"

definition extract_basic_nutrients :: "nutrition \<Rightarrow> (string \<times> real) list" where
  "extract_basic_nutrients nutrition_data =
     (let std = n_standardized_nutrients nutrition_data;
          nutrients =
            calories_entry std
            @ basic_entry std ''nutrient-protein'' ''protein_g''
            @ basic_entry std ''nutrient-total-fat'' ''total_fat_g''
            @ basic_entry std ''nutrient-saturated-fat'' ''saturated_fat_g''
            @ basic_entry std ''nutrient-trans-fat'' ''trans_fat_g''
            @ basic_entry std ''nutrient-polyunsaturated-fat'' ''polyunsaturated_fat_g''
            @ basic_entry std ''nutrient-monounsaturated-fat'' ''monounsaturated_fat_g''
            @ basic_entry std ''nutrient-cholesterol'' ''cholesterol_mg''
            @ basic_entry std ''nutrient-sodium'' ''sodium_mg''
            @ basic_entry std ''nutrient-total-carbohydrates'' ''total_carbs_g''
            @ basic_entry std ''nutrient-dietary-fiber'' ''dietary_fiber_g''
            @ basic_entry std ''nutrient-total-sugars'' ''total_sugars_g''
            @ basic_entry std ''nutrient-vitamin-a-rae'' ''vitamin_a_mcg''
            @ basic_entry std ''nutrient-vitamin-c-ascorbic-acid'' ''vitamin_c_mg''
            @ basic_entry std ''nutrient-vitamin-d'' ''vitamin_d_mcg''
            @ basic_entry std ''nutrient-calcium'' ''calcium_mg''
            @ basic_entry std ''nutrient-iron'' ''iron_mg''
            @ basic_entry std ''nutrient-potassium'' ''potassium_mg''
      in nutrients @ calories_from_fat_entry nutrients)"

text \<open>A detail record that reports its energy in kilojoules only, and a definitions
  table with two identifiers, for concrete runs.\<close>

definition energy_kj_food :: food_data where
  "energy_kj_food =
     \<lparr> fd_fdcId = Some 746782, fd_description = ''Milk, whole'', fd_dataType = ''Foundation'',
       fd_brandOwner = [],
       foodNutrients =
         [ \<lparr> fn_nutrient = Some \<lparr> ni_name = ''Energy'', ni_unitName = ''kJ'' \<rparr>,
             fn_name = [], fn_unitName = [], fn_amount = Some 1000 \<rparr>,
           \<lparr> fn_nutrient = Some \<lparr> ni_name = ''Protein'', ni_unitName = ''G'' \<rparr>,
             fn_name = [], fn_unitName = [], fn_amount = Some 3 \<rparr> ] \<rparr>"

definition two_ids :: "string list" where
  "two_ids = [''nutrient-calories-energy'', ''nutrient-water'']"

section \<open>Orchestrator (orchestrator\_enhanced.py)\<close>

text \<open>
  The rows that the two language-model stages return. A verified row carries both
  spellings of the identifier key that the orchestrator reads (\<open>fdcId\<close> and \<open>fdc_id\<close>)
  and \<open>semantic_match_score\<close>; a similarity row carries \<open>fdc_id\<close> and
  \<open>nutritional_similarity_score\<close>. An absent key is \<open>None\<close>. Scores are JSON numbers,
  modelled as real numbers: the code only compares them with 65, 80 and 90.
\<close>

record verified =
  v_fdcId :: "int option"
  v_fdc_id :: "int option"
  v_description :: string
  v_semantic_match_score :: "real option"

record similarity =
  s_fdc_id :: "int option"
  s_description :: string
  s_nutritional_similarity_score :: "real option"

text \<open>A search intent; only \<open>search_query\<close> is read by the orchestrator.\<close>

record intent =
  i_search_query :: "string option"

text \<open>
  The collaborators of the orchestrator are parameters: each is a function of its
  arguments and of the state of the outside world \<open>'w\<close>, returning its result and the
  next state. A result that Python treats as false (\<open>None\<close>, an empty dictionary) is
  \<open>None\<close>. The curated store and the list of canonical nutrient identifiers are
  parameters too.
\<close>

record 'w env =
  e_mappings :: "string \<rightharpoonup> mapping_entry"
  e_all_nutrient_ids :: "string list"
  e_get_usda_food_details :: "int option \<Rightarrow> 'w \<Rightarrow> food_data option \<times> 'w"
  e_get_cached_search_intent :: "string \<Rightarrow> 'w \<Rightarrow> intent option \<times> 'w"
  e_generate_search_intent :: "string \<Rightarrow> 'w \<Rightarrow> intent option \<times> 'w"
  e_save_search_intent_cache :: "string \<Rightarrow> intent \<Rightarrow> 'w \<Rightarrow> 'w"
  e_generate_retry_search_strategy :: "string \<Rightarrow> nat \<Rightarrow> string list \<Rightarrow> 'w \<Rightarrow> intent option \<times> 'w"
  e_search :: "string \<Rightarrow> string \<Rightarrow> 'w \<Rightarrow> food list \<times> 'w"
  e_verify_semantic_match :: "string \<Rightarrow> food list \<Rightarrow> nat \<Rightarrow> 'w \<Rightarrow> verified list \<times> 'w"
  e_calculate_nutritional_similarity_score ::
    "string \<Rightarrow> verified list \<Rightarrow> nat \<Rightarrow> 'w \<Rightarrow> similarity list \<times> 'w"

text \<open>
  \<open>result_metadata\<close>, without its timestamps, timings, counters, reasoning texts and
  per-attempt details, which no decision reads.
\<close>

record result_metadata =
  md_ingredient :: string
  md_flag :: string
  md_mapping_status :: string
  md_semantic_match_score :: "real option"
  md_nutritional_similarity_score :: "real option"
  md_retry_attempts :: nat
  md_search_queries_used :: "string list"

text \<open>
  The Result Record: the dictionary \<open>fetch_nutrition_for_ingredient\<close> returns, without
  timestamp, processing time, reasoning text and debug metadata. A key that is absent or
  \<open>None\<close> is \<open>None\<close>.
\<close>

record result =
  r_ingredient :: string
  r_fdc_id :: "int option"
  r_description :: "string option"
  r_data_type :: "string option"
  r_brand_owner :: "string option"
  r_source :: "string option"
  r_flag :: string
  r_mapping_status :: string
  r_semantic_match_score :: "real option"
  r_nutritional_similarity_score :: "real option"
  r_retry_attempts :: nat
  r_search_queries_used :: "string option"
  r_standardized_nutrients :: standardized

text \<open>\<open>sep.join(xs)\<close>.\<close>

fun join :: "string \<Rightarrow> string list \<Rightarrow> string" where
  "join sep [] = []"
| "join sep [x] = x"
| "join sep (x # y # ys) = x @ sep @ join sep (y # ys)"

definition create_failed_result :: "result_metadata \<Rightarrow> result" where
  "create_failed_result metadata =
     \<lparr> r_ingredient = md_ingredient metadata,
       r_fdc_id = None,
       r_description = None,
       r_data_type = None,
       r_brand_owner = None,
       r_source = None,
       r_flag = md_flag metadata,
       r_mapping_status = md_mapping_status metadata,
       r_semantic_match_score = md_semantic_match_score metadata,
       r_nutritional_similarity_score = md_nutritional_similarity_score metadata,
       r_retry_attempts = md_retry_attempts metadata,
       r_search_queries_used = Some (join '', '' (md_search_queries_used metadata)),
       r_standardized_nutrients = [] \<rparr>"

text \<open>
  The record built on success: the dictionary of \<open>extract_nutrition_data\<close> with the
  keys the orchestrator adds. The curated path adds no \<open>search_queries_used\<close>.
\<close>

definition success_result ::
    "nutrition \<Rightarrow> string \<Rightarrow> string \<Rightarrow> string \<Rightarrow> string \<Rightarrow> real option \<Rightarrow> real option
       \<Rightarrow> nat \<Rightarrow> string option \<Rightarrow> result" where
  "success_result nutrition_data ingredient source flag mapping_status semantic nutritional
       attempts queries =
     \<lparr> r_ingredient = ingredient,
       r_fdc_id = n_fdc_id nutrition_data,
       r_description = Some (n_description nutrition_data),
       r_data_type = Some (n_data_type nutrition_data),
       r_brand_owner = Some (n_brand_owner nutrition_data),
       r_source = Some source,
       r_flag = flag,
       r_mapping_status = mapping_status,
       r_semantic_match_score = semantic,
       r_nutritional_similarity_score = nutritional,
       r_retry_attempts = attempts,
       r_search_queries_used = queries,
       r_standardized_nutrients = n_standardized_nutrients nutrition_data \<rparr>"

text \<open>\<open>if nutrition_data:\<close> The dictionary of \<open>extract_nutrition_data\<close> always has its
  fixed keys, so it is never empty and the test is always true.\<close>

definition nutrition_truthy :: "nutrition \<Rightarrow> bool" where
  "nutrition_truthy nutrition_data = True"

text \<open>Truthiness of an identifier, and Python's \<open>a or b\<close> on two of them.\<close>

definition truthy_id :: "int option \<Rightarrow> bool" where
  "truthy_id i = (i \<noteq> None \<and> i \<noteq> Some 0)"

definition py_or :: "int option \<Rightarrow> int option \<Rightarrow> int option" where
  "py_or a b = (if truthy_id a then a else b)"

definition score_or_0 :: "real option \<Rightarrow> real" where
  "score_or_0 s = (case s of None \<Rightarrow> 0 | Some x \<Rightarrow> x)"

text \<open>
  The calls the orchestrator makes to its collaborators are recorded, in order, in a
  log that the model keeps beside the program state.
\<close>

datatype call = Details "int option" | Search string | Verify | Gate

datatype py_exception = UnboundLocalError string

text \<open>
  The state of one run of \<open>fetch_nutrition_for_ingredient\<close>: the world, the mutable
  \<open>result_metadata\<close>, \<open>previous_queries\<close>, whether the local variable
  \<open>extraction_start\<close> has been assigned, and the log of calls.
\<close>

record 'w loop_state =
  ls_world :: 'w
  ls_metadata :: result_metadata
  ls_previous_queries :: "string list"
  ls_extraction_start :: bool
  ls_calls :: "call list"

text \<open>How one pass through the body of the retry loop ends: \<open>continue\<close> (or the end
  of the body), \<open>return\<close>, or an exception.\<close>

datatype step = Continue | Return result | Raised py_exception

definition max_retries_orch :: nat where
  "max_retries_orch = 2"

text \<open>A call of \<open>get_usda_food_details\<close>, logged.\<close>

definition call_details :: "'w env \<Rightarrow> int option \<Rightarrow> 'w loop_state \<Rightarrow> food_data option \<times> 'w loop_state" where
  "call_details env fdc_id st =
     (let (food_data, w') = e_get_usda_food_details env fdc_id (ls_world st)
      in (food_data, st\<lparr>ls_world := w', ls_calls := ls_calls st @ [Details fdc_id]\<rparr>))"

text \<open>The failure exits: set flag and status in the metadata, then retry or return.\<close>

definition set_failure ::
    "string \<Rightarrow> real option \<Rightarrow> real option \<Rightarrow> 'w loop_state \<Rightarrow> 'w loop_state" where
  "set_failure status semantic nutritional st =
     st\<lparr>ls_metadata := (ls_metadata st)\<lparr>md_flag := ''NO_MAPPING_FOUND'',
          md_mapping_status := status,
          md_semantic_match_score := semantic,
          md_nutritional_similarity_score := nutritional\<rparr>\<rparr>"

definition remember_query :: "string \<Rightarrow> 'w loop_state \<Rightarrow> 'w loop_state" where
  "remember_query search_query st =
     st\<lparr>ls_previous_queries := ls_previous_queries st @ [search_query]\<rparr>"

text \<open>
  Lines 364-493, the branch \<open>if proceed_to_step4\<close>: the nutritional gate, the comparison
  with \<open>nutritional_threshold\<close>, the choice of the flag, and the extraction, where line
  436 reads \<open>extraction_start\<close>. When the score is below the threshold the body of the
  loop ends without any further statement.
\<close>

definition nutritional_step ::
    "'w env \<Rightarrow> string \<Rightarrow> nat \<Rightarrow> string \<Rightarrow> verified list \<Rightarrow> real \<Rightarrow> bool \<Rightarrow> real
       \<Rightarrow> 'w loop_state \<Rightarrow> step \<times> 'w loop_state" where
  "nutritional_step env ingredient attempt search_query verified_results best_semantic_score
       allow_mapping nutritional_threshold st =
     (let (similarity_results, w1) =
            e_calculate_nutritional_similarity_score env ingredient verified_results 3 (ls_world st);
          st1 = st\<lparr>ls_world := w1, ls_calls := ls_calls st @ [Gate]\<rparr>
      in case similarity_results of
           [] \<Rightarrow>
             (if attempt < max_retries_orch then (Continue, st1)
              else (let st2 = set_failure ''nutritional_mismatch'' (Some best_semantic_score)
                                (md_nutritional_similarity_score (ls_metadata st1)) st1
                    in (Return (create_failed_result (ls_metadata st2)), st2)))
         | best_match # _ \<Rightarrow>
             (let best_nutrition_score = score_or_0 (s_nutritional_similarity_score best_match)
              in if allow_mapping \<and> best_nutrition_score \<ge> nutritional_threshold
                 then
                   (let (flag, mapping_status) =
                          (if best_nutrition_score \<ge> 90
                           then (if best_semantic_score \<ge> 80
                                 then (''HIGH_CONFIDENCE'', ''search_verified_high'')
                                 else (''MID_CONFIDENCE'', ''search_verified_mid_semantic_low''))
                           else if best_nutrition_score \<ge> 80
                           then (''MID_CONFIDENCE'', ''search_verified_mid'')
                           else (''LOW_CONFIDENCE'', ''search_low_confidence''));
                        fdc_id = s_fdc_id best_match;
                        (food_data, st2) = call_details env fdc_id st1
                    in case food_data of
                         Some fd \<Rightarrow>
                           (let nutrition_data = extract_nutrition_data (e_all_nutrient_ids env) fd
                            in if \<not> ls_extraction_start st2
                               then (Raised (UnboundLocalError ''extraction_start''), st2)
                               else if nutrition_truthy nutrition_data
                               then (Return (success_result nutrition_data ingredient ''search''
                                        flag mapping_status (Some best_semantic_score)
                                        (Some best_nutrition_score) attempt
                                        (Some (join '', ''
                                           (md_search_queries_used (ls_metadata st2))))), st2)
                               else (let st3 = set_failure ''nutrition_extraction_failed''
                                                 (Some best_semantic_score)
                                                 (Some best_nutrition_score) st2
                                     in if attempt < max_retries_orch
                                        then (Continue, remember_query search_query st3)
                                        else (Return (create_failed_result (ls_metadata st3)),
                                              st3)))
                       | None \<Rightarrow>
                           (let st3 = set_failure ''food_data_not_found''
                                        (Some best_semantic_score) (Some best_nutrition_score) st2
                            in if attempt < max_retries_orch
                               then (Continue, remember_query search_query st3)
                               else (Return (create_failed_result (ls_metadata st3)), st3)))
                 else (Continue, st1)))"

text \<open>Lines 504-509: the first truthy identifier among the other verified rows.\<close>

fun first_alt_id :: "verified list \<Rightarrow> int option" where
  "first_alt_id [] = None"
| "first_alt_id (alt_result # rest) =
     (let alt_fdc_id = py_or (v_fdcId alt_result) (v_fdc_id alt_result)
      in if truthy_id alt_fdc_id then alt_fdc_id else first_alt_id rest)"

text \<open>Lines 536-544: fetch the detail record of the other verified rows, in order,
  until one succeeds.\<close>

fun try_alternatives ::
    "'w env \<Rightarrow> int option \<Rightarrow> verified list \<Rightarrow> 'w loop_state \<Rightarrow> food_data option \<times> 'w loop_state" where
  "try_alternatives env fdc_id [] st = (None, st)"
| "try_alternatives env fdc_id (alt_result # rest) st =
     (let alt_fdc_id = py_or (v_fdcId alt_result) (v_fdc_id alt_result)
      in if truthy_id alt_fdc_id \<and> alt_fdc_id \<noteq> fdc_id
         then (case call_details env alt_fdc_id st of
                 (Some fd, st1) \<Rightarrow> (Some fd, st1)
               | (None, st1) \<Rightarrow> try_alternatives env fdc_id rest st1)
         else try_alternatives env fdc_id rest st)"

text \<open>
  Lines 495-591, the branch taken when the best semantic score is at least 90: the
  identifier of the best row or of the first other row that has one, its detail record or
  that of another row, the extraction, and the record with the flag and status chosen at
  lines 322-323. \<open>extraction_start\<close> is assigned on entry (line 498).
\<close>

definition direct_mapping_step ::
    "'w env \<Rightarrow> string \<Rightarrow> nat \<Rightarrow> string \<Rightarrow> verified list \<Rightarrow> real \<Rightarrow> string \<Rightarrow> string
       \<Rightarrow> 'w loop_state \<Rightarrow> step \<times> 'w loop_state" where
  "direct_mapping_step env ingredient attempt search_query verified_results best_semantic_score
       flag mapping_status st0 =
     (let st = st0\<lparr>ls_extraction_start := True\<rparr>;
          best_semantic_result = hd verified_results;
          fdc_id0 = py_or (v_fdcId best_semantic_result) (v_fdc_id best_semantic_result);
          fdc_id = (if truthy_id fdc_id0 then fdc_id0
                    else (case first_alt_id (tl verified_results) of
                            None \<Rightarrow> fdc_id0 | Some i \<Rightarrow> Some i))
      in if \<not> truthy_id fdc_id
         then (if attempt < max_retries_orch
               then (Continue, remember_query search_query st)
               else (let st1 = set_failure ''fdc_id_not_found'' (Some best_semantic_score)
                                 (md_nutritional_similarity_score (ls_metadata st)) st
                     in (Return (create_failed_result (ls_metadata st1)), st1)))
         else
           (let (food_data0, st1) = call_details env fdc_id st;
                (food_data, st2) =
                   (case food_data0 of
                      Some fd \<Rightarrow> (Some fd, st1)
                    | None \<Rightarrow> try_alternatives env fdc_id (tl verified_results) st1)
            in case food_data of
                 None \<Rightarrow>
                   (if attempt < max_retries_orch
                    then (Continue, remember_query search_query st2)
                    else (let st3 = set_failure ''food_data_not_found'' (Some best_semantic_score)
                                      (md_nutritional_similarity_score (ls_metadata st2)) st2
                          in (Return (create_failed_result (ls_metadata st3)), st3)))
               | Some fd \<Rightarrow>
                   (let nutrition_data = extract_nutrition_data (e_all_nutrient_ids env) fd
                    in if nutrition_truthy nutrition_data
                       then (Return (success_result nutrition_data ingredient ''search''
                                flag mapping_status (Some best_semantic_score) None attempt
                                (Some (join '', '' (md_search_queries_used (ls_metadata st2))))),
                             st2)
                       else (Continue, st2))))"

text \<open>
  Lines 299-361 and the dispatch at line 364: the switch on the best semantic score.
  At 90 or more the record is mapped directly with \<open>HIGH_CONFIDENCE\<close>; from 80 the gate
  runs with threshold 80, from 65 with threshold 90; below 65 the metadata is marked
  \<open>semantic_score_too_low\<close> and the attempt ends.
\<close>

definition after_verification ::
    "'w env \<Rightarrow> string \<Rightarrow> nat \<Rightarrow> string \<Rightarrow> verified list \<Rightarrow> 'w loop_state
       \<Rightarrow> step \<times> 'w loop_state" where
  "after_verification env ingredient attempt search_query verified_results st =
     (let best_semantic_result = hd verified_results;
          best_semantic_score = score_or_0 (v_semantic_match_score best_semantic_result)
      in if best_semantic_score \<ge> 90
         then direct_mapping_step env ingredient attempt search_query verified_results
                best_semantic_score ''HIGH_CONFIDENCE'' ''search_verified_semantic_high'' st
         else if best_semantic_score \<ge> 80
         then nutritional_step env ingredient attempt search_query verified_results
                best_semantic_score True 80 st
         else if best_semantic_score \<ge> 65
         then nutritional_step env ingredient attempt search_query verified_results
                best_semantic_score True 90 st
         else (let st1 = set_failure ''semantic_score_too_low'' (Some best_semantic_score)
                           (md_nutritional_similarity_score (ls_metadata st)) st
               in if attempt < max_retries_orch
                  then (Continue, remember_query search_query st1)
                  else (Return (create_failed_result (ls_metadata st1)), st1)))"

text \<open>Lines 181-201: the search intent of the attempt and its query.\<close>

definition plan_query :: "'w env \<Rightarrow> string \<Rightarrow> nat \<Rightarrow> 'w loop_state \<Rightarrow> string \<times> 'w" where
  "plan_query env ingredient attempt st =
     (let (intent, w) =
            (if attempt = 1
             then (case e_get_cached_search_intent env ingredient (ls_world st) of
                     (Some cached, w1) \<Rightarrow> (Some cached, w1)
                   | (None, w1) \<Rightarrow>
                       (case e_generate_search_intent env ingredient w1 of
                          (Some generated, w2) \<Rightarrow>
                            (Some generated, e_save_search_intent_cache env ingredient generated w2)
                        | (None, w2) \<Rightarrow> (None, w2)))
             else e_generate_retry_search_strategy env ingredient attempt
                    (ls_previous_queries st) (ls_world st))
      in (case intent of
            None \<Rightarrow> ingredient
          | Some i \<Rightarrow> (case i_search_query i of None \<Rightarrow> ingredient | Some q \<Rightarrow> q),
          w))"

text \<open>Lines 173-591: one pass through the body of the loop
  \<open>for attempt in range(1, max_retries + 1)\<close>.\<close>

definition attempt_body ::
    "'w env \<Rightarrow> string \<Rightarrow> nat \<Rightarrow> 'w loop_state \<Rightarrow> step \<times> 'w loop_state" where
  "attempt_body env ingredient attempt st0 =
     (let (search_query, w1) = plan_query env ingredient attempt st0;
          st1 = st0\<lparr>ls_world := w1,
                    ls_metadata := (ls_metadata st0)\<lparr>md_retry_attempts := attempt,
                       md_search_queries_used :=
                         md_search_queries_used (ls_metadata st0) @ [search_query]\<rparr>\<rparr>;
          (search_results, w2) = e_search env search_query ingredient (ls_world st1);
          st2 = st1\<lparr>ls_world := w2, ls_calls := ls_calls st1 @ [Search search_query]\<rparr>
      in if search_results = []
         then (if attempt < max_retries_orch then (Continue, st2)
               else (let st3 = set_failure ''no_search_results''
                                 (md_semantic_match_score (ls_metadata st2))
                                 (md_nutritional_similarity_score (ls_metadata st2)) st2
                     in (Return (create_failed_result (ls_metadata st3)), st3)))
         else
           (let (verified_results, w3) =
                  e_verify_semantic_match env ingredient search_results 3 (ls_world st2);
                st3 = st2\<lparr>ls_world := w3, ls_calls := ls_calls st2 @ [Verify]\<rparr>
            in if verified_results = []
               then (if attempt < max_retries_orch then (Continue, st3)
                     else (let st4 = set_failure ''semantic_mismatch''
                                       (md_semantic_match_score (ls_metadata st3))
                                       (md_nutritional_similarity_score (ls_metadata st3)) st3
                           in (Return (create_failed_result (ls_metadata st4)), st4)))
               else after_verification env ingredient attempt search_query verified_results st3))"

text \<open>The loop over the attempts, and lines 593-607 after it: all retries exhausted.\<close>

fun run_attempts ::
    "'w env \<Rightarrow> string \<Rightarrow> nat list \<Rightarrow> 'w loop_state \<Rightarrow> (py_exception + result) \<times> 'w loop_state" where
  "run_attempts env ingredient [] st =
     (let st1 = set_failure ''all_retries_exhausted''
                  (md_semantic_match_score (ls_metadata st))
                  (md_nutritional_similarity_score (ls_metadata st)) st
      in (Inr (create_failed_result (ls_metadata st1)), st1))"
| "run_attempts env ingredient (attempt # rest) st =
     (case attempt_body env ingredient attempt st of
        (Continue, st1) \<Rightarrow> run_attempts env ingredient rest st1
      | (Return r, st1) \<Rightarrow> (Inr r, st1)
      | (Raised e, st1) \<Rightarrow> (Inl e, st1))"

text \<open>
  Lines 127-165, the fast path. \<open>if mapping:\<close> holds for every entry of the store (an
  entry is a dictionary with keys). \<open>extraction_start\<close> is assigned before the detail
  record is fetched (line 141), whether or not the fetch succeeds.
\<close>

definition curated_path ::
    "'w env \<Rightarrow> string \<Rightarrow> 'w loop_state \<Rightarrow> result option \<times> 'w loop_state" where
  "curated_path env ingredient st =
     (case search_mappings ingredient (e_mappings env) of
        None \<Rightarrow> (None, st)
      | Some mapping \<Rightarrow>
          (let fdc_id = m_fdc_id mapping;
               (food_data, st1) = call_details env fdc_id (st\<lparr>ls_extraction_start := True\<rparr>)
           in case food_data of
                None \<Rightarrow> (None, st1)
              | Some fd \<Rightarrow>
                  (let nutrition_data = extract_nutrition_data (e_all_nutrient_ids env) fd
                   in if nutrition_truthy nutrition_data
                      then (Some (success_result nutrition_data ingredient ''curated_mapping''
                               ''HIGH_CONFIDENCE'' ''curated_mapping'' (Some 100) (Some 100) 0 None),
                            st1)
                      else (None, st1))))"

definition initial_state :: "string \<Rightarrow> 'w \<Rightarrow> 'w loop_state" where
  "initial_state ingredient w =
     \<lparr> ls_world = w,
       ls_metadata = \<lparr> md_ingredient = ingredient, md_flag = ''SUCCESS'', md_mapping_status = [],
                       md_semantic_match_score = None, md_nutritional_similarity_score = None,
                       md_retry_attempts = 0, md_search_queries_used = [] \<rparr>,
       ls_previous_queries = [],
       ls_extraction_start = False,
       ls_calls = [] \<rparr>"

definition fetch_nutrition_for_ingredient ::
    "'w env \<Rightarrow> string \<Rightarrow> 'w \<Rightarrow> (py_exception + result) \<times> 'w loop_state" where
  "fetch_nutrition_for_ingredient env ingredient w =
     (case curated_path env ingredient (initial_state ingredient w) of
        (Some r, st) \<Rightarrow> (Inr r, st)
      | (None, st) \<Rightarrow> run_attempts env ingredient [1 ..< max_retries_orch + 1] st)"

text \<open>
  \<open>process_ingredients\<close>, lines 648-699: the slice of the input that is processed, and
  for each ingredient the \<open>try\<close> around \<open>fetch_nutrition_for_ingredient\<close>. The state is
  the world, \<open>results\<close>, \<open>failed\<close> and the two counters of \<open>self.stats\<close> that the loop
  updates. \<open>fetch_nutrition_for_ingredient\<close> returns a dictionary on every path that
  returns, so the branch for a result that is \<open>None\<close> is never taken and is not in
  the model. Logging and the periodic save of the results are left out, and so is
  the code after the loop (the final save and \<open>_print_summary\<close>, which divides by the
  number of processed ingredients).
\<close>

record 'w run_state =
  ps_world :: 'w
  ps_results :: "result list"
  ps_failed :: "string list"
  ps_successful :: nat
  ps_failed_count :: nat

definition process_one :: "'w env \<Rightarrow> 'w run_state \<Rightarrow> string \<Rightarrow> 'w run_state" where
  "process_one env st ingredient =
     (case fetch_nutrition_for_ingredient env ingredient (ps_world st) of
        (Inr nutrition_data, ls) \<Rightarrow>
          (if r_flag nutrition_data = ''HIGH_CONFIDENCE'' \<or> r_flag nutrition_data = ''MID_CONFIDENCE''
           then st\<lparr>ps_world := ls_world ls,
                   ps_results := ps_results st @ [nutrition_data],
                   ps_successful := ps_successful st + 1\<rparr>
           else if r_flag nutrition_data = ''LOW_CONFIDENCE''
           then st\<lparr>ps_world := ls_world ls,
                   ps_results := ps_results st @ [nutrition_data],
                   ps_failed := ps_failed st @ [ingredient],
                   ps_failed_count := ps_failed_count st + 1\<rparr>
           else st\<lparr>ps_world := ls_world ls,
                   ps_results := ps_results st @ [nutrition_data],
                   ps_failed := ps_failed st @ [ingredient],
                   ps_failed_count := ps_failed_count st + 1\<rparr>)
      | (Inl e, ls) \<Rightarrow>
          st\<lparr>ps_world := ls_world ls,
             ps_failed := ps_failed st @ [ingredient],
             ps_failed_count := ps_failed_count st + 1\<rparr>)"

definition processed_slice :: "string list \<Rightarrow> nat option \<Rightarrow> nat \<Rightarrow> string list" where
  "processed_slice ingredients limit start_from =
     (let from_start = (if start_from > 0 then drop start_from ingredients else ingredients)
      in case limit of
           None \<Rightarrow> from_start
         | Some l \<Rightarrow> (if l \<noteq> 0 then take l from_start else from_start))"

definition process_ingredients ::
    "'w env \<Rightarrow> string list \<Rightarrow> nat option \<Rightarrow> nat \<Rightarrow> 'w \<Rightarrow> 'w run_state" where
  "process_ingredients env ingredients limit start_from w =
     foldl (process_one env)
       \<lparr> ps_world = w, ps_results = [], ps_failed = [], ps_successful = 0, ps_failed_count = 0 \<rparr>
       (processed_slice ingredients limit start_from)"

text \<open>
  Concrete collaborators for runs. The world is the number of calls made. The store,
  the rows of the search and the two scores are given; the catalog has one detail record,
  746782, which can be fetched when \<open>up\<close> holds of the world; each stage returns one
  row, for 746782, with the given score.
\<close>

definition milk_entry :: mapping_entry where
  "milk_entry = \<lparr> m_fdc_id = Some 746782, m_description = ''Milk, whole'',
     m_data_type = ''Foundation'', m_verified = True, m_notes = [] \<rparr>"

definition empty_store :: "string \<rightharpoonup> mapping_entry" where
  "empty_store = Map.empty"

definition milk_store :: "string \<rightharpoonup> mapping_entry" where
  "milk_store = [''milk'' \<mapsto> milk_entry]"

definition always_up :: "nat \<Rightarrow> bool" where
  "always_up n = True"

definition never_up :: "nat \<Rightarrow> bool" where
  "never_up n = False"

definition up_after_first :: "nat \<Rightarrow> bool" where
  "up_after_first n = (n \<noteq> 0)"

definition test_env ::
    "(string \<rightharpoonup> mapping_entry) \<Rightarrow> food list \<Rightarrow> real \<Rightarrow> real \<Rightarrow> (nat \<Rightarrow> bool) \<Rightarrow> nat env" where
  "test_env store rows semantic nutritional up =
     \<lparr> e_mappings = store,
       e_all_nutrient_ids = two_ids,
       e_get_usda_food_details =
         (\<lambda>fdc_id n. (if fdc_id = Some 746782 \<and> up n then Some energy_kj_food else None, Suc n)),
       e_get_cached_search_intent = (\<lambda>ingredient n. (None, Suc n)),
       e_generate_search_intent =
         (\<lambda>ingredient n. (Some \<lparr> i_search_query = Some ingredient \<rparr>, Suc n)),
       e_save_search_intent_cache = (\<lambda>ingredient i n. Suc n),
       e_generate_retry_search_strategy =
         (\<lambda>ingredient attempt previous n.
            (Some \<lparr> i_search_query = Some (ingredient @ '' raw'') \<rparr>, Suc n)),
       e_search = (\<lambda>query ingredient n. (rows, Suc n)),
       e_verify_semantic_match =
         (\<lambda>ingredient results top_n n.
            ([\<lparr> v_fdcId = Some 746782, v_fdc_id = None, v_description = ''Milk, whole'',
                 v_semantic_match_score = Some semantic \<rparr>], Suc n)),
       e_calculate_nutritional_similarity_score =
         (\<lambda>ingredient results top_n n.
            ([\<lparr> s_fdc_id = Some 746782, s_description = ''Milk, whole'',
                 s_nutritional_similarity_score = Some nutritional \<rparr>], Suc n)) \<rparr>"

text \<open>
  The three shapes of a Result Record: built on the fast path, built from a search, or
  built by \<open>_create_failed_result\<close>. \<open>nutrient_keys\<close> is the set of keys of its
  nutrients mapping.
\<close>

definition nutrient_keys :: "result \<Rightarrow> string set" where
  "nutrient_keys r = fst ` set (r_standardized_nutrients r)"

text \<open>The nutrients mapping of the record is the canonical output of the normalizer
  for some detail record.\<close>

definition normalized_row :: "string list \<Rightarrow> result \<Rightarrow> bool" where
  "normalized_row ids r =
     (\<exists>fd :: food_data. r_standardized_nutrients r
             = extract_all_nutrients (foldl nutrient_step [] (foodNutrients fd)) ids)"

definition failure_statuses :: "string list" where
  "failure_statuses = [''no_search_results'', ''semantic_mismatch'', ''semantic_score_too_low'',
     ''nutritional_mismatch'', ''nutrition_extraction_failed'', ''food_data_not_found'',
     ''fdc_id_not_found'', ''all_retries_exhausted'']"

definition search_statuses :: "string list" where
  "search_statuses = [''search_verified_semantic_high'', ''search_verified_high'',
     ''search_verified_mid_semantic_low'', ''search_verified_mid'']"

definition curated_shape :: "string list \<Rightarrow> result \<Rightarrow> bool" where
  "curated_shape ids r =
     (r_source r = Some ''curated_mapping'' \<and> r_flag r = ''HIGH_CONFIDENCE''
      \<and> r_mapping_status r = ''curated_mapping''
      \<and> r_semantic_match_score r = Some 100 \<and> r_nutritional_similarity_score r = Some 100
      \<and> r_retry_attempts r = 0 \<and> normalized_row ids r)"

definition search_shape :: "string list \<Rightarrow> result \<Rightarrow> bool" where
  "search_shape ids r =
     (r_source r = Some ''search''
      \<and> (r_flag r = ''HIGH_CONFIDENCE'' \<or> r_flag r = ''MID_CONFIDENCE'')
      \<and> r_mapping_status r \<in> set search_statuses
      \<and> normalized_row ids r)"

definition failed_shape :: "result \<Rightarrow> bool" where
  "failed_shape r =
     (r_source r = None \<and> r_flag r = ''NO_MAPPING_FOUND'' \<and> r_fdc_id r = None
      \<and> r_mapping_status r \<in> set failure_statuses
      \<and> r_standardized_nutrients r = [])"

definition result_ok :: "string list \<Rightarrow> result \<Rightarrow> bool" where
  "result_ok ids r = (curated_shape ids r \<or> search_shape ids r \<or> failed_shape r)"

text \<open>The records these runs return, and the state \<open>process_ingredients\<close> starts from.\<close>

definition curated_record :: result where
  "curated_record =
     \<lparr> r_ingredient = ''Milk'', r_fdc_id = Some 746782, r_description = Some ''Milk, whole'',
       r_data_type = Some ''Foundation'', r_brand_owner = Some [],
       r_source = Some ''curated_mapping'', r_flag = ''HIGH_CONFIDENCE'',
       r_mapping_status = ''curated_mapping'', r_semantic_match_score = Some 100,
       r_nutritional_similarity_score = Some 100, r_retry_attempts = 0,
       r_search_queries_used = None,
       r_standardized_nutrients =
         [(''nutrient-calories-energy'', Some \<lparr> nv_amount = 1000, nv_unit = ''kJ'' \<rparr>),
          (''nutrient-water'', None)] \<rparr>"

definition mid_record :: result where
  "mid_record =
     \<lparr> r_ingredient = ''Milk'', r_fdc_id = Some 746782, r_description = Some ''Milk, whole'',
       r_data_type = Some ''Foundation'', r_brand_owner = Some [],
       r_source = Some ''search'', r_flag = ''MID_CONFIDENCE'',
       r_mapping_status = ''search_verified_mid'', r_semantic_match_score = Some 85,
       r_nutritional_similarity_score = Some 84, r_retry_attempts = 1,
       r_search_queries_used = Some ''Milk'',
       r_standardized_nutrients =
         [(''nutrient-calories-energy'', Some \<lparr> nv_amount = 1000, nv_unit = ''kJ'' \<rparr>),
          (''nutrient-water'', None)] \<rparr>"

definition no_results_record :: result where
  "no_results_record =
     \<lparr> r_ingredient = ''unobtainium'', r_fdc_id = None, r_description = None,
       r_data_type = None, r_brand_owner = None, r_source = None,
       r_flag = ''NO_MAPPING_FOUND'', r_mapping_status = ''no_search_results'',
       r_semantic_match_score = None, r_nutritional_similarity_score = None,
       r_retry_attempts = 2,
       r_search_queries_used = Some ''unobtainium, unobtainium raw'',
       r_standardized_nutrients = [] \<rparr>"


definition run0 :: "nat run_state" where
  "run0 = \<lparr> ps_world = 0, ps_results = [], ps_failed = [], ps_successful = 0,
     ps_failed_count = 0 \<rparr>"

text \<open>The calls made between two states of a run.\<close>

definition new_calls :: "'w loop_state \<Rightarrow> 'w loop_state \<Rightarrow> call list" where
  "new_calls st st' = drop (length (ls_calls st)) (ls_calls st')"














section \<open>Curated mapping store: theorems\<close>

lemma fuzzy_match_find:
  "fuzzy_match ingredient m
     = find (has_key m) (match_candidates (str_strip (str_lower ingredient)))"
  by (simp add: fuzzy_match_def match_candidates_def Let_def)

lemma ies_plural_not_candidate:
  assumes "endswith_char w (CHR ''y'')"
  shows "ies_plural w \<notin> set (match_candidates w)"
proof -
  from assms obtain b where w: "w = b @ ''y''"
    by (metis endswith_char_def append_butlast_last_id)
  have len: "length (ies_plural w) = length w + 2"
    by (simp add: ies_plural_def w)
  have "ies_plural w \<noteq> w @ ''es''"
    by (simp add: ies_plural_def w)
  moreover have "\<forall>v \<in> set (variations w). length v = length w"
    by (simp add: variations_def str_replace_def)
  moreover have "ies_plural w \<noteq> w" "ies_plural w \<noteq> w @ ''s''"
    using len by (auto dest: arg_cong [where f = length])
  moreover have "\<not> endswith_char w (CHR ''s'')"
    using assms by (simp add: endswith_char_def)
  ultimately show ?thesis
    using len by (auto simp: match_candidates_def)
qed

text \<open>
  Claim C7, as stated, at the input of its own example: the ingredient \<open>berry\<close> against a
  store whose only key is \<open>berries\<close> is not found.
\<close>

theorem C7_berry_counterexample:
  "search_mappings ''berry'' berries_store = None"
  by (simp add: berries_store_def search_mappings_def fuzzy_match_def has_key_def Let_def str_strip_def
      str_lower_def lower_char_def isupper_def isspace_def endswith_char_def variations_def
      str_replace_def)

text \<open>
  Claim C7, amended: the lookup returns the entry of the first key, in the order exact
  lowercased-trimmed name, plural adjustment (the name without a final \<open>s\<close>, or else the
  name with \<open>s\<close> and then with \<open>es\<close> appended), separator variations (space to
  underscore, underscore to space, hyphen to space, space to hyphen), that the store
  holds; an empty matched key counts as no match. There is no \<open>y\<close> to \<open>ies\<close> adjustment:
  for a name ending in \<open>y\<close> the \<open>ies\<close> plural is not among the keys tried.
\<close>

theorem C7_lookup_order:
  "search_mappings ingredient m
     = (case find (has_key m) (match_candidates (str_strip (str_lower ingredient))) of
          None \<Rightarrow> None
        | Some k \<Rightarrow> (if k \<noteq> [] then m k else None))
   \<and> (endswith_char (str_strip (str_lower ingredient)) (CHR ''y'')
        \<longrightarrow> ies_plural (str_strip (str_lower ingredient))
              \<notin> set (match_candidates (str_strip (str_lower ingredient))))"
  using ies_plural_not_candidate [of "str_strip (str_lower ingredient)"]
  by (simp add: search_mappings_def fuzzy_match_find)

theorem C7_lookup_order_witness:
  "endswith_char (str_strip (str_lower '' Berry '')) (CHR ''y'')
   \<and> search_mappings '' Berry '' [''berries'' \<mapsto> berries_entry, ''berryes'' \<mapsto> berries_entry]
       = Some berries_entry
   \<and> ies_plural (str_strip (str_lower '' Berry ''))
       \<notin> set (match_candidates (str_strip (str_lower '' Berry '')))"
  using C7_lookup_order [of "'' Berry ''"
      "[''berries'' \<mapsto> berries_entry, ''berryes'' \<mapsto> berries_entry]"]
  by (simp add: has_key_def match_candidates_def str_strip_def str_lower_def lower_char_def
      isupper_def isspace_def endswith_char_def variations_def str_replace_def)

section \<open>Relevance scorer: theorems\<close>

text \<open>
  Claim C6, as stated, at the query \<open>milk\<close> and the description \<open>Milk\<close>: an exact match,
  yet the lexical bonuses add up to 850 (the score is 2000 = 1000 + 850 + 150 for the
  word overlap), not to 500; and at \<open>whole milk\<close> against \<open>Whole milk\<close> the substring
  bonus of 200 is added on top of the 500 for the exact match.
\<close>

theorem C6_exact_match_counterexample:
  "lexical_bonus (str_lower (description milk_row)) (str_lower ''milk'') = 850
   \<and> score_relevance_advanced milk_row ''milk'' 0 = 2000
   \<and> lexical_bonus (str_lower (description whole_milk_row)) (str_lower ''whole milk'') = 700"
  by code_simp

text \<open>
  Claim C6, amended: the lexical bonuses are the sum of two independent chains. The
  first gives 500 for an exact description match, else 300 when the description starts
  with the query. The second gives 250 when the description starts with the last word
  of the query, and 100 more when the full query occurs in it, else 200 when the query
  occurs in the description. The 200 is exclusive with the 250 of the last word only:
  an exact match contributes 850 or 700, a description that starts with the query
  without being equal to it contributes 650 or 500.
\<close>

theorem C6_lexical_bonus:
  "lexical_bonus d q =
      (if d = q then 500 else if prefix q d then 300 else 0)
    + (if starts_with_head d q then 250 + (if sublist q d then 100 else 0)
       else if sublist q d then 200 else 0)
   \<and> (d = q \<longrightarrow> lexical_bonus d q = (if starts_with_head d q then 850 else 700))
   \<and> (d \<noteq> q \<and> prefix q d
        \<longrightarrow> lexical_bonus d q = (if starts_with_head d q then 650 else 500))"
  by (auto simp: lexical_bonus_def starts_with_head_def)

theorem C6_lexical_bonus_witness:
  "prefix (str_lower ''milk'') (str_lower ''Milk, whole'')
   \<and> str_lower ''Milk, whole'' \<noteq> str_lower ''milk''
   \<and> starts_with_head (str_lower ''Milk, whole'') (str_lower ''milk'')
   \<and> lexical_bonus (str_lower ''Milk, whole'') (str_lower ''milk'') = 650
   \<and> lexical_bonus (str_lower ''milk'') (str_lower ''milk'') = 850"
  using C6_lexical_bonus [of "str_lower ''Milk, whole''" "str_lower ''milk''"]
    C6_lexical_bonus [of "str_lower ''milk''" "str_lower ''milk''"]
  by (simp add: starts_with_head_def main_ingredient_def str_split_def str_lower_def
      lower_char_def isupper_def isspace_def)

section \<open>Comprehensive 4-tier search: theorems\<close>

















section \<open>Catalog client: theorems\<close>

lemma finally_clause_requests [simp]: "requests (finally_clause c a s) = requests s"
  by (simp add: finally_clause_def sleep_def)

lemma sleep_requests [simp]: "requests (sleep d s) = requests s"
  by (simp add: sleep_def)

lemma retry_loop_requests:
  "requests (snd (retry_loop c http as s)) \<le> requests s + length as"
proof (induction as arbitrary: s)
  case Nil
  then show ?case by simp
next
  case (Cons a as)
  obtain r w' where h: "http (world s) = (r, w')"
    by (cases "http (world s)")
  let ?s1 = "s\<lparr>world := w', requests := requests s + 1\<rparr>"
  have step: "requests (snd (retry_loop c http as
                 (finally_clause c a (sleep ((2 ^ a) * 2) ?s1)))) \<le> requests s + 1 + length as"
    using Cons.IH [of "finally_clause c a (sleep ((2 ^ a) * 2) ?s1)"] by simp
  show ?case
  proof (cases r)
    case (Response p)
    with h show ?thesis by simp
  next
    case (Raise e)
    with h step show ?thesis by (cases e) (auto simp: Let_def)
  qed
qed

lemma retry_loop_no_propagation:
  assumes "\<forall>w. fst (http w) \<noteq> Raise OtherException"
  shows "\<exists>v. fst (retry_loop c http as s) = Inr v"
proof (induction as arbitrary: s)
  case Nil
  then show ?case by simp
next
  case (Cons a as)
  obtain r w' where h: "http (world s) = (r, w')"
    by (cases "http (world s)")
  with assms have ne: "r \<noteq> Raise OtherException"
    by (metis fst_conv)
  show ?case
  proof (cases r)
    case (Response p)
    with h show ?thesis by simp
  next
    case (Raise e)
    with h ne Cons.IH show ?thesis by (cases e) (auto simp: Let_def)
  qed
qed

lemma retry_loop_all_fail:
  assumes "\<forall>w. transport_failure (fst (http w))"
  shows "fst (retry_loop c http as s) = Inr None"
proof (induction as arbitrary: s)
  case Nil
  then show ?case by simp
next
  case (Cons a as)
  obtain r w' where h: "http (world s) = (r, w')"
    by (cases "http (world s)")
  with assms have "transport_failure r"
    by (metis fst_conv)
  with h Cons.IH show ?case
    by (auto simp: transport_failure_def Let_def)
qed

lemma retry_step_fail:
  assumes "transport_failure (fst (http (world s)))"
  shows "retry_loop c http (a # as) s =
     (if a < max_retries c - 1
      then retry_loop c http as
             (finally_clause c a (sleep ((2 ^ a) * 2)
                (s\<lparr>world := snd (http (world s)), requests := requests s + 1\<rparr>)))
      else (Inr None, finally_clause c a
                (s\<lparr>world := snd (http (world s)), requests := requests s + 1\<rparr>)))"
proof -
  obtain r w' where h: "http (world s) = (r, w')"
    by (cases "http (world s)")
  with assms have "r = Raise Timeout \<or> r = Raise RequestException"
    by (simp add: transport_failure_def)
  with h show ?thesis
    by (auto simp: Let_def)
qed

lemma retry_loop_default_all_fail:
  assumes fail: "\<forall>w. transport_failure (fst (http w))"
  shows "snd (retry_loop default_client http [0, 1, 2] s)
           = s\<lparr> world := snd (http (snd (http (snd (http (world s)))))),
                requests := requests s + 3,
                slept := slept s @ [2, 4, 1 / 2] \<rparr>"
proof -
  have c: "max_retries default_client = 3" "rate_limit_delay default_client = 1 / 2"
    by (simp_all add: default_client_def)
  have step: "retry_loop default_client http (a # as) t =
     (if a < max_retries default_client - 1
      then retry_loop default_client http as
             (finally_clause default_client a (sleep ((2 ^ a) * 2)
                (t\<lparr>world := snd (http (world t)), requests := requests t + 1\<rparr>)))
      else (Inr None, finally_clause default_client a
                (t\<lparr>world := snd (http (world t)), requests := requests t + 1\<rparr>)))"
    for a as and t :: "'a net"
    by (rule retry_step_fail) (use fail in simp)
  show ?thesis
    by (simp add: step c finally_clause_def sleep_def del: retry_loop.simps(2))
qed

lemma upt_default: "[0 ..< max_retries default_client] = [0, 1, 2]"
  by (simp add: default_client_def upt_rec)

text \<open>
  Claim C9: with the client as \<open>__init__\<close> sets it up, both operations make at most 3
  requests; a transport exception never leaves them (they return a value whenever the
  transport raises nothing but \<open>Timeout\<close> and \<open>RequestException\<close>); and when every
  attempt raises a transport exception, the search returns the empty list and the detail
  fetch returns \<open>None\<close> after exactly 3 requests, having slept 2 and 4 seconds between
  the attempts and the rate limit delay at the end.
\<close>

theorem C9_client_never_propagates:
  "requests (snd (search_food default_client http query page_size flt s)) \<le> requests s + 3
   \<and> requests (snd (get_food_details default_client http' fdc_id s)) \<le> requests s + 3
   \<and> ((\<forall>rq w. fst (http rq w) \<noteq> Raise OtherException)
        \<longrightarrow> (\<exists>foods. fst (search_food default_client http query page_size flt s) = Inr foods))
   \<and> ((\<forall>i w. fst (http' i w) \<noteq> Raise OtherException)
        \<longrightarrow> (\<exists>d. fst (get_food_details default_client http' fdc_id s) = Inr d))
   \<and> ((\<forall>rq w. transport_failure (fst (http rq w)))
        \<longrightarrow> fst (search_food default_client http query page_size flt s) = Inr []
          \<and> requests (snd (search_food default_client http query page_size flt s))
              = requests s + 3
          \<and> slept (snd (search_food default_client http query page_size flt s))
              = slept s @ [2, 4, 1 / 2])
   \<and> ((\<forall>i w. transport_failure (fst (http' i w)))
        \<longrightarrow> fst (get_food_details default_client http' fdc_id s) = Inr None
          \<and> requests (snd (get_food_details default_client http' fdc_id s))
              = requests s + 3
          \<and> slept (snd (get_food_details default_client http' fdc_id s))
              = slept s @ [2, 4, 1 / 2])"
proof -
  let ?h = "http (search_params query page_size flt)"
  let ?loop = "retry_loop default_client ?h [0, 1, 2] s"
  have sf: "search_food default_client http query page_size flt s
      = (case ?loop of
           (Inl e, s') \<Rightarrow> (Inl e, s')
         | (Inr None, s') \<Rightarrow> (Inr [], s')
         | (Inr (Some None), s') \<Rightarrow> (Inr [], s')
         | (Inr (Some (Some foods)), s') \<Rightarrow> (Inr foods, s'))"
    by (simp add: search_food_def upt_default)
  have snd_sf: "snd (search_food default_client http query page_size flt s) = snd ?loop"
    unfolding sf by (auto split: prod.splits sum.splits option.splits)
  have gd: "get_food_details default_client http' fdc_id s
      = retry_loop default_client (http' fdc_id) [0, 1, 2] s"
    by (simp add: get_food_details_def upt_default)
  have a: "requests (snd (search_food default_client http query page_size flt s))
      \<le> requests s + 3"
    unfolding snd_sf using retry_loop_requests [of default_client ?h "[0, 1, 2]" s] by simp
  have b: "requests (snd (get_food_details default_client http' fdc_id s)) \<le> requests s + 3"
    unfolding gd using retry_loop_requests [of default_client "http' fdc_id" "[0, 1, 2]" s]
    by simp
  have c: "\<exists>foods. fst (search_food default_client http query page_size flt s) = Inr foods"
    if "\<forall>rq w. fst (http rq w) \<noteq> Raise OtherException"
  proof -
    from that have "\<forall>w. fst (?h w) \<noteq> Raise OtherException" by simp
    from retry_loop_no_propagation [OF this, of default_client "[0, 1, 2]" s]
    obtain v where "fst ?loop = Inr v" by blast
    then show ?thesis
      unfolding sf by (auto split: prod.splits sum.splits option.splits)
  qed
  have d: "\<exists>d. fst (get_food_details default_client http' fdc_id s) = Inr d"
    if "\<forall>i w. fst (http' i w) \<noteq> Raise OtherException"
  proof -
    from that have "\<forall>w. fst (http' fdc_id w) \<noteq> Raise OtherException" by simp
    from retry_loop_no_propagation [OF this] show ?thesis
      unfolding gd by blast
  qed
  have e: "fst (search_food default_client http query page_size flt s) = Inr []
          \<and> requests (snd (search_food default_client http query page_size flt s))
              = requests s + 3
          \<and> slept (snd (search_food default_client http query page_size flt s))
              = slept s @ [2, 4, 1 / 2]"
    if "\<forall>rq w. transport_failure (fst (http rq w))"
  proof -
    from that have f: "\<forall>w. transport_failure (fst (?h w))" by simp
    have "fst ?loop = Inr None"
      using retry_loop_all_fail [OF f] .
    then have "fst (search_food default_client http query page_size flt s) = Inr []"
      unfolding sf by (auto split: prod.splits sum.splits option.splits)
    moreover note retry_loop_default_all_fail [OF f, of s]
    ultimately show ?thesis
      unfolding snd_sf by (simp del: retry_loop.simps)
  qed
  have f: "fst (get_food_details default_client http' fdc_id s) = Inr None
          \<and> requests (snd (get_food_details default_client http' fdc_id s))
              = requests s + 3
          \<and> slept (snd (get_food_details default_client http' fdc_id s))
              = slept s @ [2, 4, 1 / 2]"
    if "\<forall>i w. transport_failure (fst (http' i w))"
  proof -
    from that have f: "\<forall>w. transport_failure (fst (http' fdc_id w))" by simp
    from retry_loop_all_fail [OF f, of default_client "[0, 1, 2]" s]
      retry_loop_default_all_fail [OF f, of s]
    show ?thesis
      unfolding gd by (simp del: retry_loop.simps)
  qed
  from a b c d e f show ?thesis by blast
qed

theorem C9_client_never_propagates_witness:
  "(\<forall>rq w. transport_failure (fst (always_timeout rq w :: food list option outcome \<times> nat)))
   \<and> (\<forall>i w. fst (third_time_lucky i w) \<noteq> Raise OtherException)
   \<and> search_food default_client always_timeout ''milk'' 30 None net0
       = (Inr [], \<lparr> world = 3, slept = [2, 4, 1 / 2], requests = 3 \<rparr>)
   \<and> get_food_details default_client third_time_lucky 746782 net0
       = (Inr (Some 2), \<lparr> world = 3, slept = [2, 4, 1 / 2], requests = 3 \<rparr>)
   \<and> requests (snd (get_food_details default_client third_time_lucky 746782 net0)) \<le> 3
   \<and> slept (snd (search_food default_client always_timeout ''milk'' 30 None net0))
       = [2, 4, 1 / 2]"
proof -
  have h1: "\<forall>rq w. transport_failure (fst (always_timeout rq w :: food list option outcome \<times> nat))"
    by (simp add: always_timeout_def transport_failure_def)
  have h2: "\<forall>i w. fst (third_time_lucky i w) \<noteq> Raise OtherException"
    by (simp add: third_time_lucky_def)
  have e1: "search_food default_client always_timeout ''milk'' 30 None net0
       = (Inr [], \<lparr> world = 3, slept = [2, 4, 1 / 2], requests = 3 \<rparr>)"
    by (simp add: search_food_def default_client_def always_timeout_def net0_def upt_rec
        finally_clause_def sleep_def)
  have e2: "get_food_details default_client third_time_lucky 746782 net0
       = (Inr (Some 2), \<lparr> world = 3, slept = [2, 4, 1 / 2], requests = 3 \<rparr>)"
    by (simp add: get_food_details_def default_client_def third_time_lucky_def net0_def
        upt_rec finally_clause_def sleep_def)
  from C9_client_never_propagates [where http = always_timeout and http' = third_time_lucky
      and query = "''milk''" and page_size = 30 and flt = None and s = net0
      and fdc_id = 746782] h1 h2 e1 e2
  show ?thesis by (simp add: net0_def)
qed

section \<open>Nutrient normalizer: theorems\<close>

lemma set_update_subset: "set (AList.update k v al) \<subseteq> insert (k, v) (set al)"
  by (induct al) auto

lemma map_of_init_fold:
  "map_of (foldl (\<lambda>d nutrient_id. AList.update nutrient_id None d) d0 ids) k
     = (if k \<in> set ids then Some None else map_of d0 k)"
  by (induction ids arbitrary: d0) (auto simp: update_conv')

lemma map_of_init_result:
  "map_of (init_result ids) k = (if k \<in> set ids then Some None else None)"
  by (simp add: init_result_def map_of_init_fold)

lemma keys_init_result: "fst ` set (init_result ids) = set ids"
proof -
  have "fst ` set (foldl (\<lambda>d nutrient_id. AList.update nutrient_id None d) d0 ids)
          = fst ` set d0 \<union> set ids" for d0 :: standardized
    by (induction ids arbitrary: d0) (auto simp: dom_update)
  then show ?thesis by (simp add: init_result_def)
qed

lemma keys_assign_nutrient: "fst ` set (assign_nutrient r item) = fst ` set r"
  by (auto simp: assign_nutrient_def dom_update split: option.splits)

lemma keys_fold_assign: "fst ` set (foldl assign_nutrient r xs) = fst ` set r"
  by (induction xs arbitrary: r) (simp_all add: keys_assign_nutrient)

lemma keys_extract_all_nutrients:
  "fst ` set (extract_all_nutrients usda ids) = set ids"
  by (simp add: extract_all_nutrients_def keys_fold_assign keys_init_result)

lemma map_of_assign_nutrient:
  "map_of (assign_nutrient r item) k =
     (if map_usda_nutrient_to_standard (fst item) = Some k \<and> k \<noteq> [] \<and> map_of r k \<noteq> None
      then Some (Some (snd item)) else map_of r k)"
  by (auto simp: assign_nutrient_def update_conv' map_of_eq_None_iff split: option.splits)

lemma fold_assign_value:
  "map_of (foldl assign_nutrient r xs) k = Some (Some v) \<Longrightarrow>
     map_of r k = Some (Some v)
     \<or> (\<exists>name. (name, v) \<in> set xs \<and> map_usda_nutrient_to_standard name = Some k)"
proof (induction xs arbitrary: r)
  case Nil
  then show ?case by simp
next
  case (Cons x xs)
  from Cons.prems have "map_of (foldl assign_nutrient (assign_nutrient r x) xs) k = Some (Some v)"
    by simp
  from Cons.IH [OF this] show ?case
    by (cases x) (auto simp: map_of_assign_nutrient split: if_splits)
qed

lemma fold_assign_null:
  "map_of (foldl assign_nutrient r xs) k = Some None \<longleftrightarrow>
     map_of r k = Some None
     \<and> (\<forall>item \<in> set xs. \<not> (map_usda_nutrient_to_standard (fst item) = Some k \<and> k \<noteq> []))"
proof (induction xs arbitrary: r)
  case Nil
  then show ?case by simp
next
  case (Cons x xs)
  show ?case
    by (simp add: Cons.IH map_of_assign_nutrient) auto
qed

lemma nutrient_step_rows:
  assumes "(name, v) \<in> set (nutrient_step r n)"
  shows "(name, v) \<in> set r
     \<or> (read_name n = name \<and> fn_amount n = Some (nv_amount v) \<and> read_unit n = nv_unit v)"
proof (cases "fn_amount n")
  case None
  with assms show ?thesis by (simp add: nutrient_step_def)
next
  case (Some a)
  show ?thesis
  proof (cases "read_name n = []")
    case True
    with assms Some show ?thesis by (simp add: nutrient_step_def)
  next
    case False
    with assms Some have
      "(name, v) \<in> set (AList.update (read_name n) \<lparr> nv_amount = a, nv_unit = read_unit n \<rparr> r)"
      by (simp add: nutrient_step_def)
    with set_update_subset [of "read_name n" "\<lparr> nv_amount = a, nv_unit = read_unit n \<rparr>" r]
    have "(name, v) = (read_name n, \<lparr> nv_amount = a, nv_unit = read_unit n \<rparr>)
        \<or> (name, v) \<in> set r"
      by blast
    with Some show ?thesis by auto
  qed
qed

lemma fold_nutrient_step_rows:
  "(name, v) \<in> set (foldl nutrient_step r fns) \<Longrightarrow>
     (name, v) \<in> set r
     \<or> (\<exists>n \<in> set fns. read_name n = name \<and> fn_amount n = Some (nv_amount v)
            \<and> read_unit n = nv_unit v)"
proof (induction fns arbitrary: r)
  case Nil
  then show ?case by simp
next
  case (Cons n fns)
  from Cons.prems have "(name, v) \<in> set (foldl nutrient_step (nutrient_step r n) fns)"
    by simp
  from Cons.IH [OF this] nutrient_step_rows [of name v r n] show ?case
    by auto
qed

lemma standardized_value_origin:
  assumes "map_of (n_standardized_nutrients (extract_nutrition_data ids fd)) k = Some (Some v)"
  shows "\<exists>n \<in> set (foodNutrients fd). map_usda_nutrient_to_standard (read_name n) = Some k
            \<and> fn_amount n = Some (nv_amount v) \<and> read_unit n = nv_unit v"
proof -
  let ?raw = "foldl nutrient_step [] (foodNutrients fd)"
  from assms have "map_of (foldl assign_nutrient (init_result ids) ?raw) k = Some (Some v)"
    by (simp add: extract_nutrition_data_def extract_all_nutrients_def Let_def)
  from fold_assign_value [OF this]
  obtain name where "(name, v) \<in> set ?raw" "map_usda_nutrient_to_standard name = Some k"
    by (auto simp: map_of_init_result split: if_splits)
  with fold_nutrient_step_rows [of name v "[]" "foodNutrients fd"] show ?thesis
    by auto
qed

lemma map_of_basic_entry_other:
  "key \<noteq> k \<Longrightarrow> map_of (basic_entry std nutrient_id key) k = None"
  by (simp add: basic_entry_def split: option.splits)

lemma map_of_calories_from_fat_entry:
  "map_of (calories_from_fat_entry nutrients) ''calories'' = None"
  by (simp add: calories_from_fat_entry_def split: option.splits)

lemma map_of_append_left:
  "map_of ys k = None \<Longrightarrow> map_of (xs @ ys) k = map_of xs k"
  by (simp add: map_add_def split: option.splits)

lemma map_of_append_None:
  "map_of xs k = None \<Longrightarrow> map_of ys k = None \<Longrightarrow> map_of (xs @ ys) k = None"
  by (simp add: map_add_def)

lemma calories_of_basic_nutrients:
  "map_of (extract_basic_nutrients nd) ''calories''
     = map_of (calories_entry (n_standardized_nutrients nd)) ''calories''"
  unfolding extract_basic_nutrients_def Let_def
  by (simp add: map_of_append_left map_of_append_None map_of_basic_entry_other
      map_of_calories_from_fat_entry del: map_of_append)

text \<open>
  Claim C8, as stated, at a detail record whose only energy entry is 1000 kJ: the energy
  slot of the canonical output holds the amount 1000 with the unit kJ, not 1000 / 4.184.
\<close>

theorem C8_energy_kj_counterexample:
  "map_of (n_standardized_nutrients (extract_nutrition_data two_ids energy_kj_food))
       ''nutrient-calories-energy''
     = Some (Some \<lparr> nv_amount = 1000, nv_unit = ''kJ'' \<rparr>)"
  by code_simp

text \<open>
  Claim C8, amended: the normalizer converts nothing. Every value of its canonical
  output, the energy slot included, is the amount and the unit of a member of
  \<open>foodNutrients\<close> whose name maps to that slot, unchanged, so energy reported in
  kilojoules stays in kilojoules. The factor 1/4.184 is applied later, by the nutritional
  similarity gate, when it reads its \<open>calories\<close> value from an energy slot with a
  non-zero amount whose unit contains \<open>kj\<close> in any case.
\<close>

theorem C8_normalizer_keeps_units:
  "(map_of (n_standardized_nutrients (extract_nutrition_data ids fd)) k = Some (Some v)
      \<longrightarrow> (\<exists>n \<in> set (foodNutrients fd). map_usda_nutrient_to_standard (read_name n) = Some k
              \<and> fn_amount n = Some (nv_amount v) \<and> read_unit n = nv_unit v))
   \<and> (map_of (n_standardized_nutrients nd) ''nutrient-calories-energy'' = Some (Some e)
        \<and> nv_amount e \<noteq> 0
      \<longrightarrow> map_of (extract_basic_nutrients nd) ''calories''
            = Some (if sublist ''kj'' (str_lower (nv_unit e))
                    then nv_amount e / (4184 / 1000) else nv_amount e))"
  using standardized_value_origin [of ids fd k v]
  by (auto simp: calories_of_basic_nutrients calories_entry_def truthy_slot_def)

theorem C8_normalizer_keeps_units_witness:
  "map_of (n_standardized_nutrients (extract_nutrition_data two_ids energy_kj_food))
       ''nutrient-calories-energy'' = Some (Some \<lparr> nv_amount = 1000, nv_unit = ''kJ'' \<rparr>)
   \<and> nv_amount \<lparr> nv_amount = 1000, nv_unit = ''kJ'' \<rparr> \<noteq> 0
   \<and> map_of (extract_basic_nutrients (extract_nutrition_data two_ids energy_kj_food))
         ''calories'' = Some (1000 / (4184 / 1000))"
proof -
  have h: "map_of (n_standardized_nutrients (extract_nutrition_data two_ids energy_kj_food))
       ''nutrient-calories-energy'' = Some (Some \<lparr> nv_amount = 1000, nv_unit = ''kJ'' \<rparr>)"
    by code_simp
  have u: "sublist ''kj'' (str_lower ''kJ'')"
    by code_simp
  from C8_normalizer_keeps_units [of two_ids energy_kj_food "''nutrient-calories-energy''"
      "\<lparr> nv_amount = 1000, nv_unit = ''kJ'' \<rparr>" "extract_nutrition_data two_ids energy_kj_food"
      "\<lparr> nv_amount = 1000, nv_unit = ''kJ'' \<rparr>"] h u
  show ?thesis by simp
qed

section \<open>Orchestrator: theorems\<close>

lemma failed_result_ok:
  "status \<in> set failure_statuses \<Longrightarrow>
     result_ok ids (create_failed_result (ls_metadata (set_failure status a b st)))"
  by (simp add: result_ok_def failed_shape_def create_failed_result_def set_failure_def)

lemma normalized_success_result:
  "normalized_row ids (success_result (extract_nutrition_data ids fd) ing src fl ms s n a q)"
  unfolding normalized_row_def
  by (rule exI [of _ fd]) (simp add: success_result_def extract_nutrition_data_def Let_def)

lemma normalized_row_keys: "normalized_row ids r \<Longrightarrow> nutrient_keys r = set ids"
  unfolding normalized_row_def nutrient_keys_def
  using keys_extract_all_nutrients by metis

lemma search_result_ok:
  assumes "fl = ''HIGH_CONFIDENCE'' \<or> fl = ''MID_CONFIDENCE''" "ms \<in> set search_statuses"
  shows "result_ok ids (success_result (extract_nutrition_data ids fd) ing ''search'' fl ms s n a q)"
proof -
  have "search_shape ids (success_result (extract_nutrition_data ids fd) ing ''search'' fl ms s n a q)"
    unfolding search_shape_def
    using assms normalized_success_result [of ids fd ing "''search''" fl ms s n a q]
    by (simp add: success_result_def)
  then show ?thesis by (simp add: result_ok_def)
qed

lemma curated_result_ok:
  "result_ok ids (success_result (extract_nutrition_data ids fd) ing ''curated_mapping''
       ''HIGH_CONFIDENCE'' ''curated_mapping'' (Some 100) (Some 100) 0 None)"
proof -
  have "curated_shape ids (success_result (extract_nutrition_data ids fd) ing ''curated_mapping''
       ''HIGH_CONFIDENCE'' ''curated_mapping'' (Some 100) (Some 100) 0 None)"
    unfolding curated_shape_def
    using normalized_success_result [of ids fd ing "''curated_mapping''" "''HIGH_CONFIDENCE''"
        "''curated_mapping''" "Some 100" "Some 100" 0 None]
    by (simp add: success_result_def)
  then show ?thesis by (simp add: result_ok_def)
qed

lemma nutritional_step_ok:
  assumes "nutritional_step env ing a q vs s True thr st = (Return r, st')"
      and "thr = 80 \<or> thr = 90"
  shows "result_ok (e_all_nutrient_ids env) r"
proof -
  obtain sims w1 where g: "e_calculate_nutritional_similarity_score env ing vs 3 (ls_world st)
      = (sims, w1)"
    by (cases "e_calculate_nutritional_similarity_score env ing vs 3 (ls_world st)")
  let ?st1 = "st\<lparr>ls_world := w1, ls_calls := ls_calls st @ [Gate]\<rparr>"
  show ?thesis
  proof (cases sims)
    case Nil
    with assms g show ?thesis
      by (auto simp: nutritional_step_def Let_def failure_statuses_def split: if_splits
          intro!: failed_result_ok)
  next
    case (Cons best_match rest)
    let ?n = "score_or_0 (s_nutritional_similarity_score best_match)"
    obtain fd st2 where d: "call_details env (s_fdc_id best_match) ?st1 = (fd, st2)"
      by (cases "call_details env (s_fdc_id best_match) ?st1")
    from assms(1) g Cons have acc: "?n \<ge> thr"
      by (auto simp: nutritional_step_def Let_def split: if_splits)
    with assms(2) have n80: "?n \<ge> 80" by auto
    show ?thesis
    proof (cases fd)
      case None
      with assms(1) g Cons d acc show ?thesis
        by (auto simp: nutritional_step_def Let_def failure_statuses_def split: if_splits
            intro!: failed_result_ok)
    next
      case (Some food)
      with assms(1) g Cons d acc n80 show ?thesis
        by (auto simp: nutritional_step_def Let_def nutrition_truthy_def search_statuses_def
            split: if_splits intro!: search_result_ok)
    qed
  qed
qed

lemma direct_mapping_step_ok:
  assumes "direct_mapping_step env ing a q vs s ''HIGH_CONFIDENCE''
             ''search_verified_semantic_high'' st = (Return r, st')"
  shows "result_ok (e_all_nutrient_ids env) r"
proof -
  let ?st = "st\<lparr>ls_extraction_start := True\<rparr>"
  let ?id0 = "py_or (v_fdcId (hd vs)) (v_fdc_id (hd vs))"
  let ?id = "if truthy_id ?id0 then ?id0
             else (case first_alt_id (tl vs) of None \<Rightarrow> ?id0 | Some i \<Rightarrow> Some i)"
  show ?thesis
  proof (cases "truthy_id ?id")
    case False
    with assms show ?thesis
      by (auto simp: direct_mapping_step_def Let_def failure_statuses_def split: if_splits
          intro!: failed_result_ok)
  next
    case True
    obtain fd0 st1 where d: "call_details env ?id ?st = (fd0, st1)"
      by (cases "call_details env ?id ?st")
    obtain fd st2 where t: "(case fd0 of Some x \<Rightarrow> (Some x, st1)
          | None \<Rightarrow> try_alternatives env ?id (tl vs) st1) = (fd, st2)"
      by (cases "(case fd0 of Some x \<Rightarrow> (Some x, st1)
          | None \<Rightarrow> try_alternatives env ?id (tl vs) st1)")
    show ?thesis
    proof (cases fd)
      case None
      with assms True d t show ?thesis
        by (auto simp: direct_mapping_step_def Let_def failure_statuses_def split: if_splits
            intro!: failed_result_ok)
    next
      case (Some food)
      with assms True d t show ?thesis
        by (auto simp: direct_mapping_step_def Let_def nutrition_truthy_def search_statuses_def
            split: if_splits intro!: search_result_ok)
    qed
  qed
qed

lemma after_verification_ok:
  assumes "after_verification env ing a q vs st = (Return r, st')"
  shows "result_ok (e_all_nutrient_ids env) r"
proof -
  let ?s = "score_or_0 (v_semantic_match_score (hd vs))"
  consider (high) "?s \<ge> 90" | (mid) "\<not> ?s \<ge> 90" "?s \<ge> 80"
    | (low) "\<not> ?s \<ge> 90" "\<not> ?s \<ge> 80" "?s \<ge> 65" | (too_low) "\<not> ?s \<ge> 90" "\<not> ?s \<ge> 80" "\<not> ?s \<ge> 65"
    by blast
  then show ?thesis
  proof cases
    case high
    with assms show ?thesis
      by (auto simp: after_verification_def Let_def dest: direct_mapping_step_ok)
  next
    case mid
    with assms have "nutritional_step env ing a q vs ?s True 80 st = (Return r, st')"
      by (simp add: after_verification_def Let_def)
    then show ?thesis by (rule nutritional_step_ok) simp
  next
    case low
    with assms have "nutritional_step env ing a q vs ?s True 90 st = (Return r, st')"
      by (simp add: after_verification_def Let_def)
    then show ?thesis by (rule nutritional_step_ok) simp
  next
    case too_low
    with assms show ?thesis
      by (auto simp: after_verification_def Let_def failure_statuses_def split: if_splits
          intro!: failed_result_ok)
  qed
qed

lemma attempt_body_ok:
  assumes "attempt_body env ing a st = (Return r, st')"
  shows "result_ok (e_all_nutrient_ids env) r"
proof -
  obtain q w1 where p: "plan_query env ing a st = (q, w1)"
    by (cases "plan_query env ing a st")
  obtain rows w2 where s: "e_search env q ing w1 = (rows, w2)"
    by (cases "e_search env q ing w1")
  obtain vs w3 where v: "e_verify_semantic_match env ing rows 3 w2 = (vs, w3)"
    by (cases "e_verify_semantic_match env ing rows 3 w2")
  from assms p s v show ?thesis
    by (auto simp: attempt_body_def Let_def failure_statuses_def split: if_splits
        intro!: failed_result_ok dest: after_verification_ok)
qed

lemma run_attempts_ok:
  "run_attempts env ing as st = (Inr r, st') \<Longrightarrow> result_ok (e_all_nutrient_ids env) r"
proof (induction as arbitrary: st)
  case Nil
  then show ?case
    by (auto simp: Let_def failure_statuses_def intro!: failed_result_ok)
next
  case (Cons a as)
  obtain outc st1 where b: "attempt_body env ing a st = (outc, st1)"
    by (cases "attempt_body env ing a st")
  show ?case
  proof (cases outc)
    case Continue
    with Cons b show ?thesis by simp
  next
    case (Return x)
    with Cons.prems b attempt_body_ok [of env ing a st x st1] show ?thesis by simp
  next
    case (Raised e)
    with Cons.prems b show ?thesis by simp
  qed
qed

lemma curated_path_ok:
  "curated_path env ing st = (Some r, st') \<Longrightarrow> curated_shape (e_all_nutrient_ids env) r"
  using curated_result_ok [of "e_all_nutrient_ids env" _ ing]
  by (auto simp: curated_path_def Let_def nutrition_truthy_def result_ok_def search_shape_def
      failed_shape_def success_result_def split: option.splits prod.splits)

lemma fetch_result_ok:
  assumes "fetch_nutrition_for_ingredient env ing w = (Inr r, st')"
  shows "result_ok (e_all_nutrient_ids env) r"
proof -
  obtain c st1 where c: "curated_path env ing (initial_state ing w) = (c, st1)"
    by (cases "curated_path env ing (initial_state ing w)")
  show ?thesis
  proof (cases c)
    case None
    with assms c show ?thesis
      by (auto simp: fetch_nutrition_for_ingredient_def dest: run_attempts_ok)
  next
    case (Some x)
    with assms c curated_path_ok [of env ing "initial_state ing w" x st1] show ?thesis
      by (simp add: fetch_nutrition_for_ingredient_def result_ok_def)
  qed
qed

lemma process_one_results:
  "x \<in> set (ps_results (process_one env st ing)) \<Longrightarrow>
     x \<in> set (ps_results st)
     \<or> (\<exists>ls. fetch_nutrition_for_ingredient env ing (ps_world st) = (Inr x, ls))"
  by (auto simp: process_one_def split: prod.splits sum.splits if_splits)

lemma process_fold_results_ok:
  assumes "\<forall>x \<in> set (ps_results st). result_ok (e_all_nutrient_ids env) x"
  shows "\<forall>x \<in> set (ps_results (foldl (process_one env) st ings)).
           result_ok (e_all_nutrient_ids env) x"
  using assms
proof (induction ings arbitrary: st)
  case Nil
  then show ?case by simp
next
  case (Cons i ings)
  have "\<forall>x \<in> set (ps_results (process_one env st i)). result_ok (e_all_nutrient_ids env) x"
    using Cons.prems process_one_results [of _ env st i] fetch_result_ok [of env i "ps_world st"]
    by blast
  from Cons.IH [OF this] show ?case by simp
qed

lemma process_ingredients_results_ok:
  "x \<in> set (ps_results (process_ingredients env ings limit start w)) \<Longrightarrow>
     result_ok (e_all_nutrient_ids env) x"
  using process_fold_results_ok [of "\<lparr> ps_world = w, ps_results = [], ps_failed = [],
      ps_successful = 0, ps_failed_count = 0 \<rparr>" env "processed_slice ings limit start"]
  by (simp add: process_ingredients_def)

lemma result_ok_not_low: "result_ok ids r \<Longrightarrow> r_flag r \<noteq> ''LOW_CONFIDENCE''"
  by (auto simp: result_ok_def curated_shape_def search_shape_def failed_shape_def)

text \<open>
  Claim C10: in the nutritional branch the flag \<open>LOW_CONFIDENCE\<close> is assigned only when
  the best nutritional score is below 80, inside a guard that requires it to be at least
  the threshold 80 or 90; so no record returned by \<open>fetch_nutrition_for_ingredient\<close>, and
  no record in the results of \<open>process_ingredients\<close>, has the flag \<open>LOW_CONFIDENCE\<close>.
\<close>

theorem C10_low_confidence_unreachable:
  "(fetch_nutrition_for_ingredient env ing w = (Inr r, st') \<longrightarrow> r_flag r \<noteq> ''LOW_CONFIDENCE'')
   \<and> (\<forall>x \<in> set (ps_results (process_ingredients env ings limit start w)).
         r_flag x \<noteq> ''LOW_CONFIDENCE'')"
  using fetch_result_ok [of env ing w r st']
    process_ingredients_results_ok [of _ env ings limit start w]
  by (blast dest: result_ok_not_low)

lemmas orch_eval = fetch_nutrition_for_ingredient_def curated_path_def search_mappings_def
  fuzzy_match_def has_key_def variations_def initial_state_def test_env_def
  max_retries_orch_def attempt_body_def plan_query_def after_verification_def
  nutritional_step_def direct_mapping_step_def call_details_def score_or_0_def
  set_failure_def remember_query_def create_failed_result_def success_result_def
  nutrition_truthy_def truthy_id_def py_or_def milk_entry_def empty_store_def milk_store_def
  always_up_def never_up_def up_after_first_def
  str_strip_def str_lower_def lower_char_def isupper_def isspace_def endswith_char_def
  str_replace_def Let_def upt_rec

lemma energy_kj_normalized:
  "extract_nutrition_data two_ids energy_kj_food =
     \<lparr> n_fdc_id = Some 746782, n_description = ''Milk, whole'', n_data_type = ''Foundation'',
       n_brand_owner = [],
       n_nutrients = [(''Energy'', \<lparr> nv_amount = 1000, nv_unit = ''kJ'' \<rparr>),
                      (''Protein'', \<lparr> nv_amount = 3, nv_unit = ''G'' \<rparr>)],
       n_standardized_nutrients =
         [(''nutrient-calories-energy'', Some \<lparr> nv_amount = 1000, nv_unit = ''kJ'' \<rparr>),
          (''nutrient-water'', None)] \<rparr>"
  by code_simp

lemma fetch_curated_hit:
  assumes m: "search_mappings ing (e_mappings env) = Some m"
      and d: "e_get_usda_food_details env (m_fdc_id m) w = (Some fd, w')"
  shows "fst (fetch_nutrition_for_ingredient env ing w)
     = Inr (success_result (extract_nutrition_data (e_all_nutrient_ids env) fd) ing
              ''curated_mapping'' ''HIGH_CONFIDENCE'' ''curated_mapping'' (Some 100) (Some 100)
              0 None)"
  using m d
  by (simp add: fetch_nutrition_for_ingredient_def curated_path_def call_details_def
      initial_state_def nutrition_truthy_def Let_def)

lemma result_ok_curated:
  assumes "result_ok ids r" "r_source r = Some ''curated_mapping''"
  shows "curated_shape ids r"
  using assms by (auto simp: result_ok_def search_shape_def failed_shape_def)

text \<open>
  Claim C4: when the curated store has an entry for the ingredient and the detail
  record of its identifier is fetched, the record returned is the fast-path record, with
  source \<open>curated_mapping\<close>; and every record with that source has flag
  \<open>HIGH_CONFIDENCE\<close>, both scores 100 and no retry attempts.
\<close>

theorem C4_curated_fast_path:
  "(search_mappings ing (e_mappings env) = Some m
      \<and> e_get_usda_food_details env (m_fdc_id m) w = (Some fd, w')
     \<longrightarrow> fst (fetch_nutrition_for_ingredient env ing w)
          = Inr (success_result (extract_nutrition_data (e_all_nutrient_ids env) fd) ing
                  ''curated_mapping'' ''HIGH_CONFIDENCE'' ''curated_mapping'' (Some 100)
                  (Some 100) 0 None))
   \<and> (fetch_nutrition_for_ingredient env ing w = (Inr r, st')
        \<and> r_source r = Some ''curated_mapping''
     \<longrightarrow> r_flag r = ''HIGH_CONFIDENCE'' \<and> r_semantic_match_score r = Some 100
        \<and> r_nutritional_similarity_score r = Some 100 \<and> r_retry_attempts r = 0)"
  using fetch_curated_hit [of ing env m w fd w']
    result_ok_curated [OF fetch_result_ok [of env ing w r st']]
  by (auto simp: curated_shape_def)

lemma result_ok_nutrients:
  assumes "result_ok ids r"
  shows "(r_flag r = ''NO_MAPPING_FOUND'' \<longrightarrow> r_standardized_nutrients r = [])
       \<and> (r_flag r \<noteq> ''NO_MAPPING_FOUND'' \<longrightarrow> normalized_row ids r \<and> nutrient_keys r = set ids)"
  using assms normalized_row_keys [of ids r]
  by (auto simp: result_ok_def curated_shape_def search_shape_def failed_shape_def)

lemma extract_all_nutrients_null:
  assumes "k \<in> set ids" "\<forall>item \<in> set raw. map_usda_nutrient_to_standard (fst item) \<noteq> Some k"
  shows "map_of (extract_all_nutrients raw ids) k = Some None"
  unfolding extract_all_nutrients_def fold_assign_null
  using assms by (simp add: map_of_init_result)

text \<open>
  Claim C2, amended: every Result Record whose flag is not \<open>NO_MAPPING_FOUND\<close> carries
  the canonical output of the normalizer for a detail record, whose keys are exactly the
  canonical nutrient identifiers, with the value \<open>None\<close> for an identifier that no
  nutrient of the detail record maps to; a record with flag \<open>NO_MAPPING_FOUND\<close> carries
  the empty nutrients mapping.
\<close>

theorem C2_nutrient_keys:
  "(fetch_nutrition_for_ingredient env ing w = (Inr r, st')
      \<longrightarrow> (r_flag r = ''NO_MAPPING_FOUND'' \<longrightarrow> r_standardized_nutrients r = [])
        \<and> (r_flag r \<noteq> ''NO_MAPPING_FOUND''
              \<longrightarrow> normalized_row (e_all_nutrient_ids env) r
                \<and> nutrient_keys r = set (e_all_nutrient_ids env)))
   \<and> fst ` set (extract_all_nutrients raw ids) = set ids
   \<and> (k \<in> set ids
        \<and> (\<forall>item \<in> set raw. map_usda_nutrient_to_standard (fst item) \<noteq> Some k)
      \<longrightarrow> map_of (extract_all_nutrients raw ids) k = Some None)"
  using result_ok_nutrients [OF fetch_result_ok [of env ing w r st']]
    extract_all_nutrients_null [of k ids raw] keys_extract_all_nutrients [of raw ids]
  by blast

lemma process_one_returned:
  "fst (fetch_nutrition_for_ingredient env ing (ps_world st)) = Inr r \<Longrightarrow>
     ps_results (process_one env st ing) = ps_results st @ [r]"
  by (auto simp: process_one_def split: prod.splits sum.splits)

lemma process_one_raised:
  "fst (fetch_nutrition_for_ingredient env ing (ps_world st)) = Inl e \<Longrightarrow>
     ps_results (process_one env st ing) = ps_results st
     \<and> ps_failed (process_one env st ing) = ps_failed st @ [ing]
     \<and> ps_failed_count (process_one env st ing) = ps_failed_count st + 1"
  by (auto simp: process_one_def split: prod.splits sum.splits)

lemma process_one_length:
  "length (ps_results (process_one env st ing)) \<le> length (ps_results st) + 1"
  by (auto simp: process_one_def split: prod.splits sum.splits)

lemma process_fold_length:
  "length (ps_results (foldl (process_one env) st ings)) \<le> length (ps_results st) + length ings"
proof (induction ings arbitrary: st)
  case Nil
  then show ?case by simp
next
  case (Cons i ings)
  from Cons.IH [of "process_one env st i"] process_one_length [of env st i]
  show ?case by simp
qed

lemma processed_slice_length: "length (processed_slice ings limit start) \<le> length ings"
  by (auto simp: processed_slice_def Let_def split: option.splits)

lemma result_ok_status: "result_ok ids r \<Longrightarrow> r_mapping_status r \<noteq> ''exception''"
  by (auto simp: result_ok_def curated_shape_def search_shape_def failed_shape_def
      search_statuses_def failure_statuses_def)

text \<open>
  Claim C1, amended: \<open>process_ingredients\<close> catches every exception of the
  per-ingredient processing and builds at most one Result Record for each ingredient:
  when \<open>fetch_nutrition_for_ingredient\<close> returns a record, exactly that record is
  appended to the results; when it raises, no record is built, the ingredient is
  appended to the failed list and the failed counter grows by one. No record has the
  mapping status \<open>exception\<close>.
\<close>

theorem C1_exceptions_are_caught:
  "(fst (fetch_nutrition_for_ingredient env ing (ps_world st)) = Inr r
      \<longrightarrow> ps_results (process_one env st ing) = ps_results st @ [r])
   \<and> (fst (fetch_nutrition_for_ingredient env ing (ps_world st)) = Inl e
      \<longrightarrow> ps_results (process_one env st ing) = ps_results st
        \<and> ps_failed (process_one env st ing) = ps_failed st @ [ing]
        \<and> ps_failed_count (process_one env st ing) = ps_failed_count st + 1)
   \<and> length (ps_results (process_ingredients env ings limit start w)) \<le> length ings
   \<and> (\<forall>x \<in> set (ps_results (process_ingredients env ings limit start w)).
         r_mapping_status x \<noteq> ''exception'')"
proof -
  have "length (ps_results (process_ingredients env ings limit start w))
          \<le> length (processed_slice ings limit start)"
    using process_fold_length [of env "\<lparr> ps_world = w, ps_results = [], ps_failed = [],
        ps_successful = 0, ps_failed_count = 0 \<rparr>" "processed_slice ings limit start"]
    by (simp add: process_ingredients_def)
  then have "length (ps_results (process_ingredients env ings limit start w)) \<le> length ings"
    using processed_slice_length [of ings limit start] by simp
  then show ?thesis
    using process_one_returned [of env ing st r] process_one_raised [of env ing st e]
      process_ingredients_results_ok [of _ env ings limit start w]
    by (blast dest: result_ok_status)
qed

lemma new_calls_append: "ls_calls st' = ls_calls st @ cs \<Longrightarrow> new_calls st st' = cs"
  by (simp add: new_calls_def)











lemma run_curated:
  "fst (fetch_nutrition_for_ingredient (test_env milk_store [] 0 0 always_up) ''Milk'' 0)
     = Inr curated_record"
  by (simp add: orch_eval energy_kj_normalized curated_record_def)

lemma run_mid:
  "fst (fetch_nutrition_for_ingredient (test_env milk_store [milk_row] 85 84 up_after_first)
          ''Milk'' 0) = Inr mid_record"
  by (simp add: orch_eval energy_kj_normalized mid_record_def)

lemma run_no_results:
  "fst (fetch_nutrition_for_ingredient (test_env empty_store [] 0 0 never_up) ''unobtainium'' 0)
     = Inr no_results_record"
  by (simp add: orch_eval no_results_record_def)


lemma run_unbound:
  "fst (fetch_nutrition_for_ingredient (test_env empty_store [milk_row] 85 84 always_up)
          ''cinnamon sticks'' 0) = Inl (UnboundLocalError ''extraction_start'')"
  by (simp add: orch_eval)

lemma pair_of_fst: "fst p = a \<Longrightarrow> p = (a, snd p)"
  by auto

theorem C10_low_confidence_unreachable_witness:
  "fst (fetch_nutrition_for_ingredient (test_env milk_store [milk_row] 85 84 up_after_first)
          ''Milk'' 0) = Inr mid_record
   \<and> r_nutritional_similarity_score mid_record = Some 84
   \<and> r_flag mid_record \<noteq> ''LOW_CONFIDENCE''"
proof -
  let ?E = "test_env milk_store [milk_row] 85 84 up_after_first"
  have h: "fetch_nutrition_for_ingredient ?E ''Milk'' 0
             = (Inr mid_record, snd (fetch_nutrition_for_ingredient ?E ''Milk'' 0))"
    using run_mid by (rule pair_of_fst)
  from C10_low_confidence_unreachable [of ?E "''Milk''" 0 mid_record
      "snd (fetch_nutrition_for_ingredient ?E ''Milk'' 0)" "[]" None 0] h
  have "r_flag mid_record \<noteq> ''LOW_CONFIDENCE''" by blast
  with run_mid show ?thesis by (simp add: mid_record_def)
qed

theorem C4_curated_fast_path_witness:
  "search_mappings ''Milk'' (e_mappings (test_env milk_store [] 0 0 always_up)) = Some milk_entry
   \<and> e_get_usda_food_details (test_env milk_store [] 0 0 always_up) (m_fdc_id milk_entry) 0
       = (Some energy_kj_food, 1)
   \<and> fst (fetch_nutrition_for_ingredient (test_env milk_store [] 0 0 always_up) ''Milk'' 0)
       = Inr curated_record
   \<and> r_source curated_record = Some ''curated_mapping''
   \<and> r_flag curated_record = ''HIGH_CONFIDENCE''
   \<and> r_semantic_match_score curated_record = Some 100
   \<and> r_nutritional_similarity_score curated_record = Some 100
   \<and> r_retry_attempts curated_record = 0"
proof -
  let ?E = "test_env milk_store [] 0 0 always_up"
  have m: "search_mappings ''Milk'' (e_mappings ?E) = Some milk_entry"
    by (simp add: orch_eval)
  have d: "e_get_usda_food_details ?E (m_fdc_id milk_entry) 0 = (Some energy_kj_food, 1)"
    by (simp add: orch_eval)
  have s: "r_source curated_record = Some ''curated_mapping''"
    by (simp add: curated_record_def)
  have h: "fetch_nutrition_for_ingredient ?E ''Milk'' 0
             = (Inr curated_record, snd (fetch_nutrition_for_ingredient ?E ''Milk'' 0))"
    using run_curated by (rule pair_of_fst)
  from C4_curated_fast_path [of "''Milk''" ?E milk_entry 0 energy_kj_food 1 curated_record
      "snd (fetch_nutrition_for_ingredient ?E ''Milk'' 0)"] m d s h
  have "r_flag curated_record = ''HIGH_CONFIDENCE''
      \<and> r_semantic_match_score curated_record = Some 100
      \<and> r_nutritional_similarity_score curated_record = Some 100
      \<and> r_retry_attempts curated_record = 0"
    by blast
  with m d s run_curated show ?thesis by simp
qed

text \<open>
  Claim C2, as stated, at an ingredient whose searches return nothing, with a
  definitions table of two identifiers: the record has the flag \<open>NO_MAPPING_FOUND\<close> and
  its nutrients mapping is empty, so it has neither of the two identifiers as a key.
\<close>

theorem C2_failed_record_counterexample:
  "fst (fetch_nutrition_for_ingredient (test_env empty_store [] 0 0 never_up) ''unobtainium'' 0)
     = Inr \<lparr> r_ingredient = ''unobtainium'', r_fdc_id = None, r_description = None,
             r_data_type = None, r_brand_owner = None, r_source = None,
             r_flag = ''NO_MAPPING_FOUND'', r_mapping_status = ''no_search_results'',
             r_semantic_match_score = None, r_nutritional_similarity_score = None,
             r_retry_attempts = 2,
             r_search_queries_used = Some ''unobtainium, unobtainium raw'',
             r_standardized_nutrients = [] \<rparr>
   \<and> e_all_nutrient_ids (test_env empty_store [] 0 0 never_up)
       = [''nutrient-calories-energy'', ''nutrient-water'']"
  using run_no_results by (simp add: no_results_record_def test_env_def two_ids_def)

theorem C2_nutrient_keys_witness:
  "fst (fetch_nutrition_for_ingredient (test_env milk_store [] 0 0 always_up) ''Milk'' 0)
       = Inr curated_record
   \<and> r_flag curated_record \<noteq> ''NO_MAPPING_FOUND''
   \<and> nutrient_keys curated_record = set two_ids
   \<and> ''nutrient-water'' \<in> set two_ids
   \<and> map_of (extract_all_nutrients (n_nutrients (extract_nutrition_data two_ids energy_kj_food))
         two_ids) ''nutrient-water'' = Some None"
proof -
  let ?E = "test_env milk_store [] 0 0 always_up"
  let ?raw = "n_nutrients (extract_nutrition_data two_ids energy_kj_food)"
  have h: "fetch_nutrition_for_ingredient ?E ''Milk'' 0
             = (Inr curated_record, snd (fetch_nutrition_for_ingredient ?E ''Milk'' 0))"
    using run_curated by (rule pair_of_fst)
  have f: "r_flag curated_record \<noteq> ''NO_MAPPING_FOUND''"
    by (simp add: curated_record_def)
  have k: "''nutrient-water'' \<in> set two_ids"
    by (simp add: two_ids_def)
  have e1: "map_usda_nutrient_to_standard ''Energy'' = Some ''nutrient-calories-energy''"
    by code_simp
  have e2: "map_usda_nutrient_to_standard ''Protein'' = Some ''nutrient-protein''"
    by code_simp
  have r: "\<forall>item \<in> set ?raw. map_usda_nutrient_to_standard (fst item) \<noteq> Some ''nutrient-water''"
    by (simp add: energy_kj_normalized e1 e2)
  have ids: "e_all_nutrient_ids ?E = two_ids"
    by (simp add: test_env_def)
  from C2_nutrient_keys [of ?E "''Milk''" 0 curated_record
      "snd (fetch_nutrition_for_ingredient ?E ''Milk'' 0)" ?raw two_ids "''nutrient-water''"]
    h f k r ids
  have "nutrient_keys curated_record = set two_ids
      \<and> map_of (extract_all_nutrients ?raw two_ids) ''nutrient-water'' = Some None"
    by simp
  with run_curated f k show ?thesis by simp
qed

text \<open>
  Claim C1, as stated, at an ingredient with no curated entry whose first attempt passes
  the nutritional gate (semantic score 85, nutritional score 84, detail record fetched):
  line 436 reads \<open>extraction_start\<close>, which has not been assigned, the exception leaves
  \<open>fetch_nutrition_for_ingredient\<close>, and \<open>process_ingredients\<close> ends with no Result
  Record for the ingredient, which is only listed as failed.
\<close>

theorem C1_exception_counterexample:
  "fst (fetch_nutrition_for_ingredient (test_env empty_store [milk_row] 85 84 always_up)
          ''cinnamon sticks'' 0) = Inl (UnboundLocalError ''extraction_start'')
   \<and> ps_results (process_ingredients (test_env empty_store [milk_row] 85 84 always_up)
          [''cinnamon sticks''] None 0 0) = []
   \<and> ps_failed (process_ingredients (test_env empty_store [milk_row] 85 84 always_up)
          [''cinnamon sticks''] None 0 0) = [''cinnamon sticks'']"
  using run_unbound process_one_raised [of "test_env empty_store [milk_row] 85 84 always_up"
      "''cinnamon sticks''" run0 "UnboundLocalError ''extraction_start''"]
  by (simp add: process_ingredients_def processed_slice_def run0_def)

theorem C1_exceptions_are_caught_witness:
  "fst (fetch_nutrition_for_ingredient (test_env milk_store [] 0 0 always_up) ''Milk''
          (ps_world run0)) = Inr curated_record
   \<and> ps_results (process_one (test_env milk_store [] 0 0 always_up) run0 ''Milk'')
       = [curated_record]
   \<and> fst (fetch_nutrition_for_ingredient (test_env empty_store [milk_row] 85 84 always_up)
          ''cinnamon sticks'' (ps_world run0)) = Inl (UnboundLocalError ''extraction_start'')
   \<and> ps_results (process_one (test_env empty_store [milk_row] 85 84 always_up) run0
          ''cinnamon sticks'') = []
   \<and> ps_failed (process_one (test_env empty_store [milk_row] 85 84 always_up) run0
          ''cinnamon sticks'') = [''cinnamon sticks'']
   \<and> ps_failed_count (process_one (test_env empty_store [milk_row] 85 84 always_up) run0
          ''cinnamon sticks'') = 1"
proof -
  let ?E = "test_env milk_store [] 0 0 always_up"
  let ?B = "test_env empty_store [milk_row] 85 84 always_up"
  have w: "ps_world run0 = 0" "ps_results run0 = []" "ps_failed run0 = []"
      "ps_failed_count run0 = 0"
    by (simp_all add: run0_def)
  have a: "fst (fetch_nutrition_for_ingredient ?E ''Milk'' (ps_world run0)) = Inr curated_record"
    using run_curated by (simp add: w)
  have b: "fst (fetch_nutrition_for_ingredient ?B ''cinnamon sticks'' (ps_world run0))
      = Inl (UnboundLocalError ''extraction_start'')"
    using run_unbound by (simp add: w)
  from C1_exceptions_are_caught [of ?E "''Milk''" run0 curated_record _ "[]" None 0 0] a
  have r1: "ps_results (process_one ?E run0 ''Milk'') = [curated_record]"
    by (simp add: w)
  from C1_exceptions_are_caught [of ?B "''cinnamon sticks''" run0 _
      "UnboundLocalError ''extraction_start''" "[]" None 0 0] b
  have r2: "ps_results (process_one ?B run0 ''cinnamon sticks'') = []
      \<and> ps_failed (process_one ?B run0 ''cinnamon sticks'') = [''cinnamon sticks'']
      \<and> ps_failed_count (process_one ?B run0 ''cinnamon sticks'') = 1"
    by (simp add: w)
  from a b r1 r2 show ?thesis by simp
qed




end
